theory Spec2Isabelle
  imports Complex_Main
begin

section \<open>Daemon state persistence (marcus\_daemon.py)\<close>













section \<open>Backtest engine (vector\_engine.py, VectorEngine.run)\<close>

text \<open>
  Prices and returns are \<open>float64\<close> in the source; here they are real numbers, so
  rounding, infinities and NaN are outside the model. Where the source divides by a
  value that may be zero (a previous close in \<open>pct_change\<close>, or a zero
  \<open>point_value\<close>), the theorems that depend on the quotient assume it is not zero.

  A DataFrame is a list of rows; \<open>has_high\<close> and \<open>has_low\<close> say whether the
  \<open>High\<close> and \<open>Low\<close> columns exist. The signal series comes from the strategy
  object (\<open>self.strategy.generate_signals(df)\<close>) and is an input here; it is indexed
  like the frame.
\<close>

record price_bar =
  close :: real
  high :: real
  low :: real

record frame =
  rows :: "price_bar list"
  has_high :: bool
  has_low :: bool

record engine =
  initial_capital :: real
  commission_per_unit :: real
  slippage_per_unit :: real
  volatility_factor :: real
  point_value :: real

text \<open>\<open>s.shift(1).fillna(0)\<close>: same length, a zero in front, the last value dropped.\<close>

definition shift1 :: "real list \<Rightarrow> real list" where
  "shift1 xs = (if xs = [] then [] else 0 # butlast xs)"

text \<open>\<open>s.pct_change().fillna(0)\<close> and \<open>s.diff().abs().fillna(0)\<close>, by index.\<close>

definition pct_change :: "real list \<Rightarrow> real list" where
  "pct_change xs = map (\<lambda>i. if i = 0 then 0 else xs ! i / xs ! (i - 1) - 1) [0..<length xs]"

definition diff_abs :: "real list \<Rightarrow> real list" where
  "diff_abs xs = map (\<lambda>i. if i = 0 then 0 else \<bar>xs ! i - xs ! (i - 1)\<bar>) [0..<length xs]"

text \<open>
  \<open>prices.replace(0, np.nan).ffill().fillna(1.0)\<close>: a zero price is replaced by the
  last non-zero price before it, and by 1.0 when there is none.
\<close>

fun ffill_from :: "real option \<Rightarrow> real list \<Rightarrow> real list" where
  "ffill_from prev [] = []"
| "ffill_from prev (p # ps) =
     (if p = 0 then (case prev of None \<Rightarrow> 1 | Some q \<Rightarrow> q) # ffill_from prev ps
      else p # ffill_from (Some p) ps)"

definition safe_prices :: "real list \<Rightarrow> real list" where
  "safe_prices ps = ffill_from None ps"

text \<open>\<open>s.cumprod()\<close>.\<close>

fun cumprod_from :: "real \<Rightarrow> real list \<Rightarrow> real list" where
  "cumprod_from acc [] = []"
| "cumprod_from acc (x # xs) = (acc * x) # cumprod_from (acc * x) xs"

definition cumprod :: "real list \<Rightarrow> real list" where
  "cumprod xs = cumprod_from 1 xs"

definition prices :: "frame \<Rightarrow> real list" where
  "prices df = map close (rows df)"

definition highs :: "frame \<Rightarrow> real list" where
  "highs df = (if has_high df then map high (rows df) else prices df)"

definition lows :: "frame \<Rightarrow> real list" where
  "lows df = (if has_low df then map low (rows df) else prices df)"

definition pos :: "real list \<Rightarrow> real list" where
  "pos signals = shift1 signals"

definition turnover :: "real list \<Rightarrow> real list" where
  "turnover signals = diff_abs (pos signals)"

definition total_cost_dollars :: "engine \<Rightarrow> frame \<Rightarrow> real list" where
  "total_cost_dollars e df =
     map2 (\<lambda>h l. commission_per_unit e + slippage_per_unit e + \<bar>h - l\<bar> * volatility_factor e)
       (highs df) (lows df)"

definition notional :: "engine \<Rightarrow> frame \<Rightarrow> real list" where
  "notional e df = map (\<lambda>p. p * point_value e) (safe_prices (prices df))"

definition cost_pct :: "engine \<Rightarrow> frame \<Rightarrow> real list" where
  "cost_pct e df = map2 (\<lambda>c n. c / n) (total_cost_dollars e df) (notional e df)"

definition transaction_costs :: "engine \<Rightarrow> frame \<Rightarrow> real list \<Rightarrow> real list" where
  "transaction_costs e df signals = map2 (\<lambda>t c. t * c) (turnover signals) (cost_pct e df)"

definition strat_returns :: "frame \<Rightarrow> real list \<Rightarrow> real list" where
  "strat_returns df signals = map2 (\<lambda>p r. p * r) (pos signals) (pct_change (prices df))"

definition net_returns :: "engine \<Rightarrow> frame \<Rightarrow> real list \<Rightarrow> real list" where
  "net_returns e df signals =
     map2 (\<lambda>g c. g - c) (strat_returns df signals) (transaction_costs e df signals)"

definition equity_curve :: "engine \<Rightarrow> frame \<Rightarrow> real list \<Rightarrow> real list" where
  "equity_curve e df signals =
     map (\<lambda>x. initial_capital e * x) (cumprod (map (\<lambda>r. 1 + r) (net_returns e df signals)))"

record backtest_result =
  res_equity_curve :: "real list"
  res_signals :: "real list"
  res_returns :: "real list"
  res_turnover :: "real list"

definition run :: "engine \<Rightarrow> frame \<Rightarrow> real list \<Rightarrow> backtest_result" where
  "run e df signals =
     \<lparr>res_equity_curve = equity_curve e df signals,
      res_signals = signals,
      res_returns = net_returns e df signals,
      res_turnover = turnover signals\<rparr>"

section \<open>Opening-range-breakout kernel (vector\_engine.py, \_numba\_orb\_logic)\<close>

text \<open>
  The kernel reads parallel arrays of one length, all columns of one DataFrame; here
  they are one list of rows, and row \<open>i\<close> holds the \<open>i\<close>-th entry of every array.
  The indicator arrays (\<open>ema\<close>, \<open>atr\<close>, \<open>daily_ma\<close>, \<open>rvol\<close>, \<open>hurst\<close>,
  \<open>adx\<close>) are inputs of the kernel, computed by its caller.
\<close>

record kbar = price_bar +
  day_id :: int
  time :: int
  ema :: real
  atr :: real

record orb_bar = kbar +
  daily_ma :: real
  rvol :: real
  hurst :: real
  adx :: real

text \<open>The parameters that both kernels take, and the ORB kernel's own.\<close>

record kernel_cfg =
  start_min :: int
  end_min :: int
  sl_mult :: real
  tp_mult :: real

record orb_cfg = kernel_cfg +
  exit_min :: int
  atr_max_mult :: real
  use_htf :: bool
  use_rvol :: bool
  rvol_thresh :: real
  use_hurst :: bool
  hurst_thresh :: real
  use_adx :: bool
  adx_thresh :: real
  use_ts :: bool
  ts_mult :: real

text \<open>The position variables that both kernels keep, and the ORB kernel's own.\<close>

record pos_state =
  in_pos :: int
  entry_price :: real
  sl_price :: real
  tp_price :: real

record orb_state = pos_state +
  orb_high :: real
  orb_low :: real
  traded_today :: bool

definition orb_init :: orb_state where
  "orb_init =
     \<lparr>in_pos = 0, entry_price = 0, sl_price = 0, tp_price = 0,
      orb_high = - 1, orb_low = 1000000000, traded_today = False\<rparr>"

text \<open>Step 1 of the loop body: a new calendar day resets the range and the position.\<close>

definition orb_new_day :: "int \<Rightarrow> orb_state \<Rightarrow> orb_bar \<Rightarrow> orb_state" where
  "orb_new_day prev_day s b =
     (if day_id b \<noteq> prev_day
      then s\<lparr>orb_high := - 1, orb_low := 1000000000, traded_today := False, in_pos := 0\<rparr>
      else s)"

text \<open>The branch \<open>t >= start_min and t < end_min\<close>: the running range.\<close>

definition orb_range :: "orb_state \<Rightarrow> orb_bar \<Rightarrow> orb_state" where
  "orb_range s b =
     (if orb_high s = - 1 then s\<lparr>orb_high := high b, orb_low := low b\<rparr>
      else
        (let s1 = (if high b > orb_high s then s\<lparr>orb_high := high b\<rparr> else s)
         in if low b < orb_low s1 then s1\<lparr>orb_low := low b\<rparr> else s1))"

text \<open>
  The exits of the trading window. With the trailing stop the stop is first moved
  from this bar's high (long) or low (short); then the stop is tested, and the fixed
  target only when the trailing stop is off.
\<close>

definition orb_exits :: "orb_cfg \<Rightarrow> orb_state \<Rightarrow> orb_bar \<Rightarrow> orb_state" where
  "orb_exits c s b =
     (if in_pos s \<noteq> 0 then
        (if in_pos s = 1 then
           (let s1 = (if use_ts c then
                        (let new_sl = high b - atr b * ts_mult c
                         in if new_sl > sl_price s then s\<lparr>sl_price := new_sl\<rparr> else s)
                      else s)
            in if low b \<le> sl_price s1 then s1\<lparr>in_pos := 0\<rparr>
               else if \<not> use_ts c \<and> high b \<ge> tp_price s1 then s1\<lparr>in_pos := 0\<rparr>
               else s1)
         else if in_pos s = - 1 then
           (let s1 = (if use_ts c then
                        (let new_sl = low b + atr b * ts_mult c
                         in if new_sl < sl_price s then s\<lparr>sl_price := new_sl\<rparr> else s)
                      else s)
            in if high b \<ge> sl_price s1 then s1\<lparr>in_pos := 0\<rparr>
               else if \<not> use_ts c \<and> low b \<le> tp_price s1 then s1\<lparr>in_pos := 0\<rparr>
               else s1)
         else s)
      else s)"

text \<open>The optional filters: \<open>valid\<close> starts true and each enabled filter may clear it.\<close>

definition valid_long :: "orb_cfg \<Rightarrow> orb_bar \<Rightarrow> bool" where
  "valid_long c b \<longleftrightarrow>
     \<not> (use_htf c \<and> close b \<le> daily_ma b) \<and>
     \<not> (use_rvol c \<and> rvol b \<le> rvol_thresh c) \<and>
     \<not> (use_hurst c \<and> hurst b \<le> hurst_thresh c) \<and>
     \<not> (use_adx c \<and> adx b \<le> adx_thresh c)"

definition valid_short :: "orb_cfg \<Rightarrow> orb_bar \<Rightarrow> bool" where
  "valid_short c b \<longleftrightarrow>
     \<not> (use_htf c \<and> close b \<ge> daily_ma b) \<and>
     \<not> (use_rvol c \<and> rvol b \<le> rvol_thresh c) \<and>
     \<not> (use_hurst c \<and> hurst b \<le> hurst_thresh c) \<and>
     \<not> (use_adx c \<and> adx b \<le> adx_thresh c)"

definition orb_entries :: "orb_cfg \<Rightarrow> orb_state \<Rightarrow> orb_bar \<Rightarrow> orb_state" where
  "orb_entries c s b =
     (if in_pos s = 0 \<and> \<not> traded_today s \<and> orb_high s \<noteq> - 1 then
        (let range_size = orb_high s - orb_low s; cur_atr = atr b
         in if range_size > 0 \<and> cur_atr > 0 \<and> range_size \<le> cur_atr * atr_max_mult c then
              (if close b > orb_high s \<and> close b > ema b then
                 (if valid_long c b then
                    s\<lparr>in_pos := 1, entry_price := close b,
                      sl_price := close b - cur_atr * sl_mult c,
                      tp_price := close b + cur_atr * tp_mult c,
                      traded_today := True\<rparr>
                  else s)
               else if close b < orb_low s \<and> close b < ema b then
                 (if valid_short c b then
                    s\<lparr>in_pos := - 1, entry_price := close b,
                      sl_price := close b + cur_atr * sl_mult c,
                      tp_price := close b - cur_atr * tp_mult c,
                      traded_today := True\<rparr>
                  else s)
               else s)
            else s)
      else s)"

text \<open>
  One iteration of the loop, for bar \<open>i \<ge> 1\<close>; \<open>prev_day\<close> is \<open>day_ids[i - 1]\<close>.
  The signal written for the bar is \<open>in_pos\<close> of the resulting state.
\<close>

definition orb_step :: "orb_cfg \<Rightarrow> int \<Rightarrow> orb_state \<Rightarrow> orb_bar \<Rightarrow> orb_state" where
  "orb_step c prev_day s b =
     (let t = time b; s1 = orb_new_day prev_day s b
      in if t \<ge> start_min c \<and> t < end_min c then orb_range s1 b
         else if t \<ge> end_min c \<and> t < exit_min c then orb_entries c (orb_exits c s1 b) b
         else if t \<ge> exit_min c then s1\<lparr>in_pos := 0\<rparr>
         else s1)"

fun orb_loop :: "orb_cfg \<Rightarrow> int \<Rightarrow> orb_state \<Rightarrow> orb_bar list \<Rightarrow> orb_state list" where
  "orb_loop c prev_day s [] = []"
| "orb_loop c prev_day s (b # bs) =
     (let s1 = orb_step c prev_day s b in s1 # orb_loop c (day_id b) s1 bs)"

text \<open>
  The state after each bar (the loop starts at bar 1, so after bar 0 the state is the
  initial one), and the signal array: 0 at bar 0, \<open>in_pos\<close> afterwards.
\<close>

definition orb_trace :: "orb_cfg \<Rightarrow> orb_bar list \<Rightarrow> orb_state list" where
  "orb_trace c bars =
     (case bars of [] \<Rightarrow> [] | b0 # bs \<Rightarrow> orb_init # orb_loop c (day_id b0) orb_init bs)"

definition numba_orb_logic :: "orb_cfg \<Rightarrow> orb_bar list \<Rightarrow> int list" where
  "numba_orb_logic c bars =
     (case bars of [] \<Rightarrow> [] | b0 # bs \<Rightarrow> 0 # map in_pos (orb_loop c (day_id b0) orb_init bs))"

text \<open>The frame the engine sees for the same bars, and the signals as a series.\<close>

definition frame_of :: "orb_bar list \<Rightarrow> frame" where
  "frame_of bars =
     \<lparr>rows = map (\<lambda>b. \<lparr>close = close b, high = high b, low = low b\<rparr>) bars,
      has_high = True, has_low = True\<rparr>"

definition series_of :: "int list \<Rightarrow> real list" where
  "series_of sigs = map real_of_int sigs"

text \<open>The loop invariant: a position is open only after the day's one trade was taken.\<close>

definition orb_inv :: "orb_state \<Rightarrow> bool" where
  "orb_inv s \<longleftrightarrow> (in_pos s \<noteq> 0 \<longrightarrow> traded_today s)"

text \<open>Bar \<open>i\<close> is an entry: the signal goes from flat to not flat.\<close>

definition entry_at :: "int list \<Rightarrow> nat \<Rightarrow> bool" where
  "entry_at sigs i \<longleftrightarrow> 0 < i \<and> i < length sigs \<and> sigs ! (i - 1) = 0 \<and> sigs ! i \<noteq> 0"

subsection \<open>Example inputs for the ORB kernel\<close>

definition orb_demo_cfg :: orb_cfg where
  "orb_demo_cfg =
     \<lparr>start_min = 570, end_min = 585, sl_mult = 2, tp_mult = 4,
      exit_min = 945, atr_max_mult = 5 / 2,
      use_htf = False, use_rvol = False, rvol_thresh = 3 / 2,
      use_hurst = False, hurst_thresh = 1 / 2, use_adx = False, adx_thresh = 20,
      use_ts = False, ts_mult = 3\<rparr>"

definition mk_bar :: "int \<Rightarrow> int \<Rightarrow> real \<Rightarrow> real \<Rightarrow> real \<Rightarrow> orb_bar" where
  "mk_bar d t c h l =
     \<lparr>close = c, high = h, low = l, day_id = d, time = t, ema = 100, atr = 1,
      daily_ma = 0, rvol = 0, hurst = 0, adx = 0\<rparr>"

definition orb_demo_bars :: "orb_bar list" where
  "orb_demo_bars =
     [mk_bar 1 565 100 100 100,
      mk_bar 1 570 100 101 99,
      mk_bar 1 585 102 102 (201 / 2),
      mk_bar 1 590 108 110 99,
      mk_bar 1 595 108 108 108]"

definition orb_ts_bars :: "orb_bar list" where
  "orb_ts_bars =
     [mk_bar 1 565 100 100 100,
      mk_bar 1 570 100 101 99,
      mk_bar 1 585 102 102 (201 / 2),
      mk_bar 1 590 (213 / 2) 107 105,
      mk_bar 1 595 104 106 (207 / 2)]"

definition orb_at :: "int \<Rightarrow> real \<Rightarrow> real \<Rightarrow> real \<Rightarrow> real \<Rightarrow> real \<Rightarrow> bool \<Rightarrow> orb_state" where
  "orb_at p e sl tp oh ol tr =
     \<lparr>in_pos = p, entry_price = e, sl_price = sl, tp_price = tp,
      orb_high = oh, orb_low = ol, traded_today = tr\<rparr>"

definition orb_ts_cfg :: orb_cfg where
  "orb_ts_cfg = orb_demo_cfg\<lparr>use_ts := True\<rparr>"

definition trading_bar :: "orb_cfg \<Rightarrow> orb_bar list \<Rightarrow> nat \<Rightarrow> bool" where
  "trading_bar c bars i \<longleftrightarrow>
     day_id (bars ! i) = day_id (bars ! (i - 1)) \<and>
     end_min c \<le> time (bars ! i) \<and> time (bars ! i) < exit_min c"

definition orb_short_bars :: "orb_bar list" where
  "orb_short_bars =
     [mk_bar 1 565 100 100 100,
      mk_bar 1 570 100 101 99,
      mk_bar 1 585 98 (199 / 2) 98,
      mk_bar 1 590 94 (191 / 2) 93,
      mk_bar 1 595 95 97 (189 / 2)]"

section \<open>Overnight fade kernel (vector\_engine.py, \_numba\_overnight\_logic)\<close>

record on_cfg = kernel_cfg +
  range_end_min :: int

record on_state = pos_state +
  range_high :: real
  range_low :: real
  traded_session :: bool
  in_session :: bool
  range_formed :: bool
  broke_high :: bool
  broke_low :: bool

definition on_init :: on_state where
  "on_init =
     \<lparr>in_pos = 0, entry_price = 0, sl_price = 0, tp_price = 0,
      range_high = - 1, range_low = 1000000000, traded_session = False,
      in_session = False, range_formed = False, broke_high = False, broke_low = False\<rparr>"

definition crosses_midnight :: "on_cfg \<Rightarrow> bool" where
  "crosses_midnight c \<longleftrightarrow> start_min c > end_min c"

text \<open>The reset written out twice in the source: at a new evening and at a session start.\<close>

definition on_reset :: "on_state \<Rightarrow> on_state" where
  "on_reset s =
     s\<lparr>range_high := - 1, range_low := 1000000000, traded_session := False,
       in_session := True, range_formed := False, broke_high := False, broke_low := False\<rparr>"

text \<open>
  The first block of the loop body: on a new calendar day any held position is closed;
  the session variables are reset only when the bar is at or after \<open>start_min\<close>.
\<close>

definition on_new_day :: "on_cfg \<Rightarrow> int \<Rightarrow> on_state \<Rightarrow> kbar \<Rightarrow> on_state" where
  "on_new_day c prev_day s b =
     (if day_id b \<noteq> prev_day then
        (let s1 = (if in_pos s \<noteq> 0 then s\<lparr>in_pos := 0\<rparr> else s)
         in if time b \<ge> start_min c then on_reset s1 else s1)
      else s)"

definition bar_in_session :: "on_cfg \<Rightarrow> int \<Rightarrow> bool" where
  "bar_in_session c t \<longleftrightarrow>
     (if crosses_midnight c then t \<ge> start_min c \<or> t < end_min c
      else t \<ge> start_min c \<and> t < end_min c)"

definition on_session_start :: "on_cfg \<Rightarrow> on_state \<Rightarrow> kbar \<Rightarrow> on_state" where
  "on_session_start c s b =
     (if time b \<ge> start_min c \<and> time b < start_min c + 5 \<and> \<not> in_session s
      then on_reset s else s)"

definition in_range_window :: "on_cfg \<Rightarrow> int \<Rightarrow> bool" where
  "in_range_window c t \<longleftrightarrow>
     (if crosses_midnight c then
        (if range_end_min c > start_min c then t \<ge> start_min c \<and> t < range_end_min c
         else t \<ge> start_min c \<or> t < range_end_min c)
      else t \<ge> start_min c \<and> t < range_end_min c)"

definition on_range :: "on_state \<Rightarrow> kbar \<Rightarrow> on_state" where
  "on_range s b =
     (if range_high s = - 1 then s\<lparr>range_high := high b, range_low := low b\<rparr>
      else
        (let s1 = (if high b > range_high s then s\<lparr>range_high := high b\<rparr> else s)
         in if low b < range_low s1 then s1\<lparr>range_low := low b\<rparr> else s1))"

definition near_exit :: "on_cfg \<Rightarrow> int \<Rightarrow> bool" where
  "near_exit c t \<longleftrightarrow>
     (if crosses_midnight c then t < start_min c \<and> t \<ge> end_min c - 5
      else t \<ge> end_min c - 5)"

definition on_exits :: "on_state \<Rightarrow> kbar \<Rightarrow> on_state" where
  "on_exits s b =
     (if in_pos s \<noteq> 0 then
        (if in_pos s = 1 then
           (if low b \<le> sl_price s then s\<lparr>in_pos := 0\<rparr>
            else if high b \<ge> tp_price s then s\<lparr>in_pos := 0\<rparr>
            else s)
         else if in_pos s = - 1 then
           (if high b \<ge> sl_price s then s\<lparr>in_pos := 0\<rparr>
            else if low b \<le> tp_price s then s\<lparr>in_pos := 0\<rparr>
            else s)
         else s)
      else s)"

text \<open>
  The entry block, entered when flat, not yet traded this session and the range is not
  empty. A non-positive ATR leaves the block at once (\<open>continue\<close>).
\<close>

definition on_entries :: "on_cfg \<Rightarrow> on_state \<Rightarrow> kbar \<Rightarrow> on_state" where
  "on_entries c s b =
     (if in_pos s = 0 \<and> \<not> traded_session s \<and> range_high s > range_low s then
        (let cur_atr = atr b
         in if cur_atr \<le> 0 then s
            else
              (let s1 = (if high b > range_high s then s\<lparr>broke_high := True\<rparr> else s);
                   s2 = (if low b < range_low s1 then s1\<lparr>broke_low := True\<rparr> else s1)
               in if broke_high s2 \<and> close b < range_high s2 \<and> close b < ema b then
                    s2\<lparr>in_pos := - 1, entry_price := close b,
                       sl_price := close b + cur_atr * sl_mult c,
                       tp_price := close b - cur_atr * tp_mult c,
                       traded_session := True, broke_high := False, broke_low := False\<rparr>
                  else if broke_low s2 \<and> close b > range_low s2 \<and> close b > ema b then
                    s2\<lparr>in_pos := 1, entry_price := close b,
                       sl_price := close b - cur_atr * sl_mult c,
                       tp_price := close b + cur_atr * tp_mult c,
                       traded_session := True, broke_high := False, broke_low := False\<rparr>
                  else s2))
      else s)"

text \<open>
  The trading window of a bar in session with the range formed: the hard exit in the
  last five minutes before \<open>end_min\<close>, otherwise exits and then entries. The result
  is the new state and the signal written for the bar.
\<close>

definition on_trade :: "on_cfg \<Rightarrow> on_state \<Rightarrow> kbar \<Rightarrow> on_state \<times> int" where
  "on_trade c s b =
     (if near_exit c (time b) then (s\<lparr>in_pos := 0\<rparr>, 0)
      else (let s4 = on_entries c (on_exits s b) b in (s4, in_pos s4)))"

text \<open>
  The loop body after the two resets. Each \<open>continue\<close> of the source is a branch
  that returns: a bar outside the session, a bar of the range window, and the rest.
\<close>

definition on_bar :: "on_cfg \<Rightarrow> on_state \<Rightarrow> kbar \<Rightarrow> on_state \<times> int" where
  "on_bar c s b =
     (let t = time b
      in if \<not> bar_in_session c t then
           ((if in_pos s \<noteq> 0 then s\<lparr>in_pos := 0\<rparr> else s)\<lparr>in_session := False\<rparr>, 0)
         else if in_range_window c t \<and> \<not> range_formed s then
           (on_range s b, in_pos s)
         else
           (let s3 = (if \<not> range_formed s \<and> \<not> in_range_window c t
                      then s\<lparr>range_formed := True\<rparr> else s)
            in if range_formed s3 \<and> bar_in_session c t then on_trade c s3 b
               else (s3, in_pos s3)))"

text \<open>One iteration of the loop for bar \<open>i \<ge> 1\<close>; \<open>prev_day\<close> is \<open>day_ids[i - 1]\<close>.\<close>

definition on_step :: "on_cfg \<Rightarrow> int \<Rightarrow> on_state \<Rightarrow> kbar \<Rightarrow> on_state \<times> int" where
  "on_step c prev_day s b =
     on_bar c (on_session_start c (on_new_day c prev_day s b) b) b"

fun on_loop :: "on_cfg \<Rightarrow> int \<Rightarrow> on_state \<Rightarrow> kbar list \<Rightarrow> (on_state \<times> int) list" where
  "on_loop c prev_day s [] = []"
| "on_loop c prev_day s (b # bs) =
     (let r = on_step c prev_day s b in r # on_loop c (day_id b) (fst r) bs)"

definition overnight_trace :: "on_cfg \<Rightarrow> kbar list \<Rightarrow> on_state list" where
  "overnight_trace c bars =
     (case bars of [] \<Rightarrow> [] | b0 # bs \<Rightarrow> on_init # map fst (on_loop c (day_id b0) on_init bs))"

definition numba_overnight_logic :: "on_cfg \<Rightarrow> kbar list \<Rightarrow> int list" where
  "numba_overnight_logic c bars =
     (case bars of [] \<Rightarrow> [] | b0 # bs \<Rightarrow> 0 # map snd (on_loop c (day_id b0) on_init bs))"

subsection \<open>Example inputs for the overnight kernel\<close>

definition on_demo_cfg :: on_cfg where
  "on_demo_cfg =
     \<lparr>start_min = 1080, end_min = 480, sl_mult = 2, tp_mult = 3, range_end_min = 1140\<rparr>"

definition mk_kbar :: "int \<Rightarrow> int \<Rightarrow> real \<Rightarrow> real \<Rightarrow> real \<Rightarrow> kbar" where
  "mk_kbar d t c h l =
     \<lparr>close = c, high = h, low = l, day_id = d, time = t, ema = 102, atr = 1\<rparr>"

definition on_demo_bars :: "kbar list" where
  "on_demo_bars =
     [mk_kbar 1 1075 100 100 100,
      mk_kbar 1 1080 100 101 99,
      mk_kbar 1 1140 (201 / 2) 103 (501 / 5),
      mk_kbar 1 1435 (201 / 2) 101 100,
      mk_kbar 2 0 (201 / 2) 101 100]"

definition on_at :: "int \<Rightarrow> real \<Rightarrow> real \<Rightarrow> real \<Rightarrow> real \<Rightarrow> real \<Rightarrow> bool \<Rightarrow> bool \<Rightarrow> bool \<Rightarrow> on_state" where
  "on_at p e sl tp rh rl tr ins rf =
     \<lparr>in_pos = p, entry_price = e, sl_price = sl, tp_price = tp,
      range_high = rh, range_low = rl, traded_session = tr, in_session = ins,
      range_formed = rf, broke_high = False, broke_low = False\<rparr>"

section \<open>Complementarity scorer (nqmain\_analyzer.py)\<close>

text \<open>
  A \<open>datetime.time\<close> value, as far as the scorer reads it: hour and minute. The
  constructor raises \<open>ValueError\<close> outside 0..23 and 0..59.
\<close>

record dtime =
  hour :: int
  minute :: int


definition tm :: "int \<Rightarrow> int \<Rightarrow> dtime" where
  "tm h m = \<lparr>hour = h, minute = m\<rparr>"

definition minute_of :: "dtime \<Rightarrow> int" where
  "minute_of t = hour t * 60 + minute t"

type_synonym window = "dtime \<times> dtime"

text \<open>The fields of \<open>NQmainProfile\<close> that the scorer reads, at their defaults.\<close>

definition rth_start :: dtime where "rth_start = tm 9 30"
definition rth_end :: dtime where "rth_end = tm 15 45"
definition overnight_start :: dtime where "overnight_start = tm 18 5"
definition overnight_end :: dtime where "overnight_end = tm 9 25"

definition get_all_active_windows :: "window list" where
  "get_all_active_windows = [(rth_start, rth_end), (overnight_start, overnight_end)]"














text \<open>The minute sets of \<open>compute_time_overlap\<close>.\<close>

definition window_to_minutes :: "int \<Rightarrow> int \<Rightarrow> int set" where
  "window_to_minutes start_m end_m =
     (if start_m > end_m then {start_m..<1440} \<union> {0..<end_m} else {start_m..<end_m})"

fun nq_minutes :: "window list \<Rightarrow> int set" where
  "nq_minutes [] = {}"
| "nq_minutes ((s, e) # ws) = window_to_minutes (minute_of s) (minute_of e) \<union> nq_minutes ws"












subsection \<open>Example inputs for the engine\<close>

definition demo_engine :: engine where
  "demo_engine = \<lparr>initial_capital = 100000, commission_per_unit = 1, slippage_per_unit = 1,
     volatility_factor = 1 / 100, point_value = 20\<rparr>"


definition tripling_frame :: frame where
  "tripling_frame =
     \<lparr>rows = [\<lparr>close = 100, high = 100, low = 100\<rparr>,
              \<lparr>close = 100, high = 100, low = 100\<rparr>,
              \<lparr>close = 300, high = 300, low = 100\<rparr>],
      has_high = True, has_low = True\<rparr>"

definition doubling_frame :: frame where
  "doubling_frame =
     \<lparr>rows = [\<lparr>close = 100, high = 100, low = 100\<rparr>,
              \<lparr>close = 100, high = 100, low = 100\<rparr>,
              \<lparr>close = 200, high = 200, low = 100\<rparr>,
              \<lparr>close = 300, high = 300, low = 200\<rparr>],
      has_high = True, has_low = True\<rparr>"

section \<open>Properties of the daemon state file\<close>





section \<open>Properties of the backtest engine\<close>

lemma length_shift1: "length (shift1 xs) = length xs"
  by (cases xs) (simp_all add: shift1_def)

lemma shift1_nth:
  "i < length xs \<Longrightarrow> shift1 xs ! i = (if i = 0 then 0 else xs ! (i - 1))"
  by (cases i) (auto simp: shift1_def nth_butlast)

lemma length_ffill_from: "length (ffill_from prev ps) = length ps"
  by (induction ps arbitrary: prev) simp_all


lemma ffill_from_nonzero:
  "(case prev of None \<Rightarrow> True | Some q \<Rightarrow> q \<noteq> 0) \<Longrightarrow> x \<in> set (ffill_from prev ps) \<Longrightarrow> x \<noteq> 0"
proof (induction ps arbitrary: prev)
  case Nil
  then show ?case by simp
next
  case (Cons p ps)
  show ?case
  proof (cases "p = 0")
    case True
    with Cons.prems have "x = (case prev of None \<Rightarrow> 1 | Some q \<Rightarrow> q) \<or> x \<in> set (ffill_from prev ps)"
      by simp
    then show ?thesis
    proof
      assume "x = (case prev of None \<Rightarrow> 1 | Some q \<Rightarrow> q)"
      with Cons.prems(1) show ?thesis by (cases prev) simp_all
    next
      assume "x \<in> set (ffill_from prev ps)"
      with Cons.IH[of prev] Cons.prems(1) show ?thesis by simp
    qed
  next
    case False
    with Cons.prems have "x = p \<or> x \<in> set (ffill_from (Some p) ps)" by simp
    then show ?thesis
    proof
      assume "x = p"
      with False show ?thesis by simp
    next
      assume "x \<in> set (ffill_from (Some p) ps)"
      with Cons.IH[of "Some p"] False show ?thesis by simp
    qed
  qed
qed

text \<open>The price that the cost is divided by is never zero.\<close>

lemma safe_prices_nonzero: "x \<in> set (safe_prices ps) \<Longrightarrow> x \<noteq> 0"
  unfolding safe_prices_def using ffill_from_nonzero[of None x ps] by simp

lemma length_cumprod_from: "length (cumprod_from acc xs) = length xs"
  by (induction xs arbitrary: acc) simp_all

lemma cumprod_from_nth:
  "i < length xs \<Longrightarrow> cumprod_from acc xs ! i = acc * prod_list (take (Suc i) xs)"
proof (induction xs arbitrary: acc i)
  case Nil
  then show ?case by simp
next
  case (Cons x xs)
  then show ?case by (cases i) (simp_all add: mult.assoc)
qed

lemma cumprod_from_zero_stays:
  "i \<le> j \<Longrightarrow> j < length xs \<Longrightarrow> cumprod_from acc xs ! i = 0 \<Longrightarrow> cumprod_from acc xs ! j = 0"
proof -
  assume ij: "i \<le> j" and j: "j < length xs" and z: "cumprod_from acc xs ! i = 0"
  from ij obtain d where d: "Suc j = Suc i + d" by (metis add_Suc le_iff_add)
  have "take (Suc j) xs = take (Suc i) xs @ take d (drop (Suc i) xs)"
    unfolding d by (metis take_add)
  then have p: "prod_list (take (Suc j) xs) = prod_list (take (Suc i) xs) * prod_list (take d (drop (Suc i) xs))"
    by (simp only: prod_list.append)
  from ij j have i: "i < length xs" by simp
  have "cumprod_from acc xs ! j = acc * prod_list (take (Suc j) xs)"
    using j by (rule cumprod_from_nth)
  also have "\<dots> = (acc * prod_list (take (Suc i) xs)) * prod_list (take d (drop (Suc i) xs))"
    by (simp only: p mult.assoc)
  also have "acc * prod_list (take (Suc i) xs) = cumprod_from acc xs ! i"
    using i by (rule cumprod_from_nth[symmetric])
  finally show ?thesis using z by simp
qed

lemma prod_list_nonneg: "(\<forall>x \<in> set xs. (0::real) \<le> x) \<Longrightarrow> 0 \<le> prod_list xs"
  by (induction xs) simp_all

lemma length_turnover: "length (turnover signals) = length signals"
  by (simp add: turnover_def diff_abs_def pos_def length_shift1)

lemma length_cost_pct: "length (cost_pct e df) = length (rows df)"
  by (simp add: cost_pct_def total_cost_dollars_def notional_def highs_def lows_def prices_def
      safe_prices_def length_ffill_from)

lemma length_net_returns:
  "length signals = length (rows df) \<Longrightarrow> length (net_returns e df signals) = length (rows df)"
  by (simp add: net_returns_def strat_returns_def transaction_costs_def length_turnover
      length_cost_pct pos_def length_shift1 pct_change_def prices_def)


lemma pos_nth:
  "i < length signals \<Longrightarrow> pos signals ! i = (if i = 0 then 0 else signals ! (i - 1))"
  by (simp add: pos_def shift1_nth)

lemma turnover_nth:
  "i < length signals \<Longrightarrow>
   turnover signals ! i = (if i = 0 then 0 else \<bar>pos signals ! i - pos signals ! (i - 1)\<bar>)"
  by (simp add: turnover_def diff_abs_def pos_def length_shift1)


lemma transaction_costs_nth:
  "length signals = length (rows df) \<Longrightarrow> i < length (rows df) \<Longrightarrow>
   transaction_costs e df signals ! i = turnover signals ! i * cost_pct e df ! i"
  by (simp add: transaction_costs_def length_turnover length_cost_pct)

lemma net_returns_nth:
  "length signals = length (rows df) \<Longrightarrow> i < length (rows df) \<Longrightarrow>
   net_returns e df signals ! i =
     pos signals ! i * pct_change (prices df) ! i - transaction_costs e df signals ! i"
  by (simp add: net_returns_def strat_returns_def transaction_costs_def length_turnover
      length_cost_pct pos_def length_shift1 pct_change_def prices_def)


lemma equity_curve_nth:
  "length signals = length (rows df) \<Longrightarrow> i < length (rows df) \<Longrightarrow>
   equity_curve e df signals ! i =
     initial_capital e * prod_list (map (\<lambda>r. 1 + r) (take (Suc i) (net_returns e df signals)))"
  by (simp add: equity_curve_def cumprod_def length_cumprod_from length_net_returns
      cumprod_from_nth take_map)

lemma equity_curve_cumprod_nth:
  assumes "length signals = length (rows df)" and "i < length (rows df)"
  shows "equity_curve e df signals ! i =
     initial_capital e * cumprod_from 1 (map (\<lambda>r. 1 + r) (net_returns e df signals)) ! i"
proof -
  have "i < length (cumprod_from 1 (map (\<lambda>r. 1 + r) (net_returns e df signals)))"
    using assms by (simp add: length_cumprod_from length_net_returns)
  then show ?thesis
    unfolding equity_curve_def cumprod_def by (rule nth_map)
qed

lemma run_fields:
  "res_equity_curve (run e df signals) = equity_curve e df signals"
  "res_returns (run e df signals) = net_returns e df signals"
  "res_turnover (run e df signals) = turnover signals"
  "res_signals (run e df signals) = signals"
  by (simp_all add: run_def)

lemmas engine_defs =
  demo_engine_def transaction_costs_def turnover_def cost_pct_def total_cost_dollars_def
  notional_def highs_def lows_def prices_def safe_prices_def pos_def shift1_def diff_abs_def
  pct_change_def net_returns_def strat_returns_def equity_curve_def cumprod_def


lemma upt3: "[0..<3] = [0, 1, 2]" by (simp add: upt_rec)
lemma upt4: "[0..<4] = [0, 1, 2, 3]" by (simp add: upt_rec)




text \<open>
  C2, as the code has it. For every frame with at least one bar, non-zero closes and a
  non-zero point value, and every signal series of the same length: the equity curve
  starts at the initial capital; once it is 0 it is 0 on every later bar; and it is
  non-negative up to bar \<open>i\<close> when the initial capital is non-negative and no net
  return up to \<open>i\<close> is below \<open>-1\<close>.
\<close>

theorem equity_invariants:
  assumes len: "length signals = length (rows df)"
    and ne: "rows df \<noteq> []"
    and pv: "point_value e \<noteq> 0"
    and cl: "\<forall>b \<in> set (rows df). close b \<noteq> 0"
  shows "res_equity_curve (run e df signals) ! 0 = initial_capital e \<and>
         (\<forall>i j. i \<le> j \<and> j < length (rows df) \<and> res_equity_curve (run e df signals) ! i = 0
                \<longrightarrow> res_equity_curve (run e df signals) ! j = 0) \<and>
         (\<forall>i. i < length (rows df) \<and> 0 \<le> initial_capital e \<and>
               (\<forall>k \<le> i. - 1 \<le> res_returns (run e df signals) ! k)
                \<longrightarrow> 0 \<le> res_equity_curve (run e df signals) ! i)"
proof -
  from ne have z: "0 < length (rows df)" by simp
  have n0: "net_returns e df signals ! 0 = 0"
    using len z by (simp add: net_returns_nth transaction_costs_nth pos_nth turnover_nth)
  obtain r rs where rs: "net_returns e df signals = r # rs"
    using length_net_returns[OF len, of e] z by (cases "net_returns e df signals") auto
  have a: "equity_curve e df signals ! 0 = initial_capital e"
    using n0 rs by (simp add: equity_curve_nth[OF len z])
  have b: "\<forall>i j. i \<le> j \<and> j < length (rows df) \<and> equity_curve e df signals ! i = 0
                \<longrightarrow> equity_curve e df signals ! j = 0"
  proof (intro allI impI)
    fix i j
    assume h: "i \<le> j \<and> j < length (rows df) \<and> equity_curve e df signals ! i = 0"
    let ?fs = "map (\<lambda>r. 1 + r) (net_returns e df signals)"
    have lf: "length ?fs = length (rows df)" by (simp add: length_net_returns[OF len])
    from h have il: "i < length (rows df)" and jl: "j < length (rows df)" and ij: "i \<le> j"
      and ez: "equity_curve e df signals ! i = 0" by simp_all
    from ez have ei: "initial_capital e * cumprod_from 1 ?fs ! i = 0"
      by (simp only: equity_curve_cumprod_nth[OF len il])
    show "equity_curve e df signals ! j = 0"
    proof (cases "initial_capital e = 0")
      case True
      then show ?thesis by (simp only: equity_curve_cumprod_nth[OF len jl] mult_zero_left)
    next
      case False
      with ei have "cumprod_from 1 ?fs ! i = 0" by simp
      with ij jl lf have "cumprod_from 1 ?fs ! j = 0"
        by (intro cumprod_from_zero_stays[of i j]) simp_all
      then show ?thesis by (simp only: equity_curve_cumprod_nth[OF len jl] mult_zero_right)
    qed
  qed
  have c: "\<forall>i. i < length (rows df) \<and> 0 \<le> initial_capital e \<and>
               (\<forall>k \<le> i. - 1 \<le> net_returns e df signals ! k)
                \<longrightarrow> 0 \<le> equity_curve e df signals ! i"
  proof (intro allI impI)
    fix i
    assume h: "i < length (rows df) \<and> 0 \<le> initial_capital e \<and>
               (\<forall>k \<le> i. - 1 \<le> net_returns e df signals ! k)"
    let ?ns = "net_returns e df signals"
    have "\<forall>x \<in> set (map (\<lambda>r. 1 + r) (take (Suc i) ?ns)). 0 \<le> x"
    proof
      fix x assume "x \<in> set (map (\<lambda>r. 1 + r) (take (Suc i) ?ns))"
      then obtain y where y: "y \<in> set (take (Suc i) ?ns)" "x = 1 + y" by auto
      then obtain k where k: "k < length (take (Suc i) ?ns)" "take (Suc i) ?ns ! k = y"
        by (auto simp: in_set_conv_nth)
      then have "k \<le> i" "?ns ! k = y" by auto
      with h y show "0 \<le> x" by auto
    qed
    then have "0 \<le> prod_list (map (\<lambda>r. 1 + r) (take (Suc i) ?ns))"
      by (rule prod_list_nonneg)
    with h show "0 \<le> equity_curve e df signals ! i"
      by (simp add: equity_curve_nth[OF len])
  qed
  from a b c show ?thesis unfolding run_fields by blast
qed

text \<open>
  The theorem at a concrete frame: a short position over a bar on which the price
  doubles loses everything, and the curve stays at 0 afterwards.
\<close>

theorem equity_invariants_witness:
  "length [-1, -1, -1, 0 :: real] = length (rows doubling_frame) \<and>
   rows doubling_frame \<noteq> [] \<and> point_value demo_engine \<noteq> 0 \<and>
   res_equity_curve (run demo_engine doubling_frame [-1, -1, -1, 0]) ! 0 = initial_capital demo_engine \<and>
   res_equity_curve (run demo_engine doubling_frame [-1, -1, -1, 0]) ! 2 = 0 \<and>
   res_equity_curve (run demo_engine doubling_frame [-1, -1, -1, 0]) ! 3 = 0"
  using equity_invariants [of "[-1, -1, -1, 0]" doubling_frame demo_engine]
  by (simp add: run_fields engine_defs doubling_frame_def upt4)

text \<open>
  C2 as stated fails: a short position over a bar on which the price triples has a net
  return of \<open>-2\<close>, and the equity becomes negative.
\<close>

theorem equity_negative_counterexample:
  "res_equity_curve (run demo_engine tripling_frame [-1, -1, 0]) ! 0 = initial_capital demo_engine \<and>
   res_equity_curve (run demo_engine tripling_frame [-1, -1, 0]) ! 2 = - 99900 \<and>
   \<not> 0 \<le> res_equity_curve (run demo_engine tripling_frame [-1, -1, 0]) ! 2"
  by (simp add: run_fields engine_defs tripling_frame_def upt3)

section \<open>Properties of the ORB kernel\<close>

lemma length_orb_loop: "length (orb_loop c pd s bs) = length bs"
  by (induction bs arbitrary: pd s) (simp_all add: Let_def)

lemma orb_loop_nth:
  "k < length bs \<Longrightarrow>
   orb_loop c pd s bs ! k =
     orb_step c (if k = 0 then pd else day_id (bs ! (k - 1)))
       (if k = 0 then s else orb_loop c pd s bs ! (k - 1)) (bs ! k)"
proof (induction bs arbitrary: pd s k)
  case Nil
  then show ?case by simp
next
  case (Cons b bs)
  show ?case
  proof (cases k)
    case 0
    then show ?thesis by (simp add: Let_def)
  next
    case (Suc m)
    with Cons.prems have m: "m < length bs" by simp
    from Cons.IH[OF m, of "day_id b" "orb_step c pd s b"] Suc show ?thesis
      by (cases m) (simp_all add: Let_def)
  qed
qed

lemma length_orb_trace: "length (orb_trace c bars) = length bars"
  by (cases bars) (simp_all add: orb_trace_def length_orb_loop)

lemma length_numba_orb_logic: "length (numba_orb_logic c bars) = length bars"
  by (cases bars) (simp_all add: numba_orb_logic_def length_orb_loop)

lemma orb_trace_step:
  assumes "0 < i" and "i < length bars"
  shows "orb_trace c bars ! i =
           orb_step c (day_id (bars ! (i - 1))) (orb_trace c bars ! (i - 1)) (bars ! i)"
proof -
  from assms obtain b0 bs where bars: "bars = b0 # bs" by (cases bars) auto
  from assms obtain k where k: "i = Suc k" by (cases i) auto
  with assms bars have kl: "k < length bs" by simp
  show ?thesis
    using orb_loop_nth[OF kl, of c "day_id b0" orb_init] k bars
    by (cases k) (simp_all add: orb_trace_def)
qed

lemma orb_signal_trace:
  "i < length bars \<Longrightarrow> numba_orb_logic c bars ! i = in_pos (orb_trace c bars ! i)"
proof (cases bars)
  case Nil
  assume "i < length bars"
  with Nil show ?thesis by simp
next
  case (Cons b0 bs)
  assume "i < length bars"
  with Cons show ?thesis
    by (cases i) (simp_all add: numba_orb_logic_def orb_trace_def orb_init_def length_orb_loop)
qed

subsection \<open>What one iteration does to the position and the day's trade flag\<close>

lemma orb_range_fields [simp]:
  "in_pos (orb_range s b) = in_pos s"
  "traded_today (orb_range s b) = traded_today s"
  "sl_price (orb_range s b) = sl_price s"
  "tp_price (orb_range s b) = tp_price s"
  by (simp_all add: orb_range_def Let_def)

lemma orb_exits_fields [simp]:
  "traded_today (orb_exits c s b) = traded_today s"
  "orb_high (orb_exits c s b) = orb_high s"
  "orb_low (orb_exits c s b) = orb_low s"
  "tp_price (orb_exits c s b) = tp_price s"
  by (simp_all add: orb_exits_def Let_def)

lemma orb_exits_flat: "in_pos s = 0 \<Longrightarrow> orb_exits c s b = s"
  by (simp add: orb_exits_def)

lemma orb_exits_in_pos: "in_pos (orb_exits c s b) = 0 \<or> in_pos (orb_exits c s b) = in_pos s"
  by (simp add: orb_exits_def Let_def)

lemma orb_entries_blocked: "traded_today s \<or> in_pos s \<noteq> 0 \<or> orb_high s = - 1 \<Longrightarrow> orb_entries c s b = s"
  by (auto simp: orb_entries_def)

lemma orb_entries_traded:
  "in_pos (orb_entries c s b) \<noteq> in_pos s \<Longrightarrow> traded_today (orb_entries c s b)"
  by (auto simp: orb_entries_def Let_def split: if_splits)

lemma orb_entries_keeps_traded:
  "traded_today s \<Longrightarrow> traded_today (orb_entries c s b)"
  by (simp add: orb_entries_blocked)

lemma orb_entries_inv: "orb_inv s \<Longrightarrow> orb_inv (orb_entries c s b)"
  unfolding orb_inv_def using orb_entries_traded[of c s b] orb_entries_keeps_traded[of s c b]
  by (cases "in_pos (orb_entries c s b) = in_pos s") auto

lemma orb_exits_inv: "orb_inv s \<Longrightarrow> orb_inv (orb_exits c s b)"
  unfolding orb_inv_def using orb_exits_in_pos[of c s b] by auto

lemma orb_new_day_inv: "orb_inv s \<Longrightarrow> orb_inv (orb_new_day pd s b)"
  by (simp add: orb_inv_def orb_new_day_def)

lemma orb_step_inv: "orb_inv s \<Longrightarrow> orb_inv (orb_step c pd s b)"
proof -
  assume "orb_inv s"
  then have n: "orb_inv (orb_new_day pd s b)" by (rule orb_new_day_inv)
  have r: "orb_inv (orb_range (orb_new_day pd s b) b)"
    using n by (simp add: orb_inv_def)
  have e: "orb_inv (orb_entries c (orb_exits c (orb_new_day pd s b) b) b)"
    using n by (intro orb_entries_inv orb_exits_inv)
  have f: "orb_inv ((orb_new_day pd s b)\<lparr>in_pos := 0\<rparr>)"
    by (simp add: orb_inv_def)
  from n r e f show ?thesis by (simp add: orb_step_def Let_def)
qed

lemma orb_trace_inv: "i < length bars \<Longrightarrow> orb_inv (orb_trace c bars ! i)"
proof (induction i)
  case 0
  then show ?case by (cases bars) (simp_all add: orb_trace_def orb_inv_def orb_init_def)
next
  case (Suc i)
  then have "orb_inv (orb_trace c bars ! i)" by simp
  then show ?case
    using orb_trace_step[of "Suc i" bars c] Suc.prems by (simp add: orb_step_inv)
qed

lemma orb_step_same_day_traded:
  "traded_today s \<Longrightarrow> day_id b = pd \<Longrightarrow> traded_today (orb_step c pd s b)"
  by (simp add: orb_step_def Let_def orb_new_day_def orb_entries_keeps_traded)

lemma orb_step_no_entry:
  assumes "in_pos s = 0" and "traded_today s \<or> day_id b \<noteq> pd"
  shows "in_pos (orb_step c pd s b) = 0"
proof -
  let ?s1 = "orb_new_day pd s b"
  from assms have z: "in_pos ?s1 = 0" by (simp add: orb_new_day_def)
  from assms have blk: "traded_today ?s1 \<or> orb_high ?s1 = - 1"
    by (auto simp: orb_new_day_def)
  from z have "orb_exits c ?s1 b = ?s1" by (rule orb_exits_flat)
  moreover from blk have "orb_entries c ?s1 b = ?s1" by (simp add: orb_entries_blocked)
  ultimately show ?thesis using z by (simp add: orb_step_def Let_def)
qed

lemma orb_step_entry_traded:
  assumes "in_pos s = 0" and "in_pos (orb_step c pd s b) \<noteq> 0"
  shows "traded_today (orb_step c pd s b)"
proof -
  from assms(1) have "orb_inv s" by (simp add: orb_inv_def)
  then have "orb_inv (orb_step c pd s b)" by (rule orb_step_inv)
  with assms(2) show ?thesis by (simp add: orb_inv_def)
qed

lemmas orb_step_defs =
  orb_step_def orb_new_day_def orb_range_def orb_exits_def orb_entries_def valid_long_def
  valid_short_def orb_demo_cfg_def orb_ts_cfg_def mk_bar_def orb_at_def Let_def

lemma day_id_mk_bar: "day_id (mk_bar d t c h l) = d"
  by (simp add: mk_bar_def)

lemma orb_init_at: "orb_init = orb_at 0 0 0 0 (- 1) 1000000000 False"
  by (simp add: orb_init_def orb_at_def)

lemma orb_demo_step1:
  "orb_step orb_demo_cfg 1 (orb_at 0 0 0 0 (- 1) 1000000000 False) (mk_bar 1 570 100 101 99)
     = orb_at 0 0 0 0 101 99 False"
  by (simp add: orb_step_defs)

lemma orb_demo_step2:
  "orb_step orb_demo_cfg 1 (orb_at 0 0 0 0 101 99 False) (mk_bar 1 585 102 102 (201 / 2))
     = orb_at 1 102 100 106 101 99 True"
  by (simp add: orb_step_defs)

lemma orb_demo_step3:
  "orb_step orb_demo_cfg 1 (orb_at 1 102 100 106 101 99 True) (mk_bar 1 590 108 110 99)
     = orb_at 0 102 100 106 101 99 True"
  by (simp add: orb_step_defs)

lemma orb_demo_step4:
  "orb_step orb_demo_cfg 1 (orb_at 0 102 100 106 101 99 True) (mk_bar 1 595 108 108 108)
     = orb_at 0 102 100 106 101 99 True"
  by (simp add: orb_step_defs)

lemma orb_demo_trace:
  "orb_trace orb_demo_cfg orb_demo_bars =
     [orb_at 0 0 0 0 (- 1) 1000000000 False,
      orb_at 0 0 0 0 101 99 False,
      orb_at 1 102 100 106 101 99 True,
      orb_at 0 102 100 106 101 99 True,
      orb_at 0 102 100 106 101 99 True]"
  by (simp add: orb_trace_def orb_demo_bars_def orb_init_at day_id_mk_bar
      orb_demo_step1 orb_demo_step2 orb_demo_step3 orb_demo_step4 Let_def)

lemma in_pos_orb_at: "in_pos (orb_at p e sl tp oh ol tr) = p"
  by (simp add: orb_at_def)

lemma orb_demo_signals: "numba_orb_logic orb_demo_cfg orb_demo_bars = [0, 0, 1, 0, 0]"
  by (simp add: numba_orb_logic_def orb_demo_bars_def orb_init_at day_id_mk_bar
      orb_demo_step1 orb_demo_step2 orb_demo_step3 orb_demo_step4 in_pos_orb_at Let_def)

text \<open>The trading-window branch applied to a long position of a day already traded.\<close>

lemma orb_trading_long:
  assumes "in_pos s = 1" and "traded_today s"
  shows "sl_price (orb_entries c (orb_exits c s b) b) =
           (if use_ts c then max (sl_price s) (high b - atr b * ts_mult c) else sl_price s)"
    and "in_pos (orb_entries c (orb_exits c s b) b) =
           (if low b \<le> (if use_ts c then max (sl_price s) (high b - atr b * ts_mult c) else sl_price s)
              \<or> (\<not> use_ts c \<and> high b \<ge> tp_price s)
            then 0 else 1)"
proof -
  from assms(2) have e: "orb_entries c (orb_exits c s b) b = orb_exits c s b"
    by (simp add: orb_entries_blocked)
  show "sl_price (orb_entries c (orb_exits c s b) b) =
           (if use_ts c then max (sl_price s) (high b - atr b * ts_mult c) else sl_price s)"
    unfolding e using assms(1) by (simp add: orb_exits_def Let_def max_def)
  show "in_pos (orb_entries c (orb_exits c s b) b) =
           (if low b \<le> (if use_ts c then max (sl_price s) (high b - atr b * ts_mult c) else sl_price s)
              \<or> (\<not> use_ts c \<and> high b \<ge> tp_price s)
            then 0 else 1)"
    unfolding e using assms(1) by (simp add: orb_exits_def Let_def max_def)
qed

lemma orb_trading_short:
  assumes "in_pos s = - 1" and "traded_today s"
  shows "sl_price (orb_entries c (orb_exits c s b) b) =
           (if use_ts c then min (sl_price s) (low b + atr b * ts_mult c) else sl_price s)"
    and "in_pos (orb_entries c (orb_exits c s b) b) =
           (if high b \<ge> (if use_ts c then min (sl_price s) (low b + atr b * ts_mult c) else sl_price s)
              \<or> (\<not> use_ts c \<and> low b \<le> tp_price s)
            then 0 else - 1)"
proof -
  from assms(2) have e: "orb_entries c (orb_exits c s b) b = orb_exits c s b"
    by (simp add: orb_entries_blocked)
  show "sl_price (orb_entries c (orb_exits c s b) b) =
           (if use_ts c then min (sl_price s) (low b + atr b * ts_mult c) else sl_price s)"
    unfolding e using assms(1) by (simp add: orb_exits_def Let_def min_def)
  show "in_pos (orb_entries c (orb_exits c s b) b) =
           (if high b \<ge> (if use_ts c then min (sl_price s) (low b + atr b * ts_mult c) else sl_price s)
              \<or> (\<not> use_ts c \<and> low b \<le> tp_price s)
            then 0 else - 1)"
    unfolding e using assms(1) by (simp add: orb_exits_def Let_def min_def)
qed

text \<open>Outside the trading window of the same day the stop is not touched.\<close>

lemma orb_step_sl_other:
  assumes "in_pos s \<noteq> 0"
    and "\<not> (day_id b = pd \<and> end_min c \<le> time b \<and> time b < exit_min c)"
  shows "sl_price (orb_step c pd s b) = sl_price s"
proof (cases "day_id b = pd")
  case True
  with assms(2) show ?thesis
    by (auto simp: orb_step_def Let_def orb_new_day_def)
next
  case False
  let ?s1 = "orb_new_day pd s b"
  from False have z: "in_pos ?s1 = 0" and h: "orb_high ?s1 = - 1" and sl: "sl_price ?s1 = sl_price s"
    by (simp_all add: orb_new_day_def)
  from z have "orb_exits c ?s1 b = ?s1" by (rule orb_exits_flat)
  moreover from h have "orb_entries c ?s1 b = ?s1" by (simp add: orb_entries_blocked)
  ultimately show ?thesis using sl by (simp add: orb_step_def Let_def)
qed

lemma orb_step_trading:
  assumes "day_id b = pd" and "end_min c \<le> time b" and "time b < exit_min c"
  shows "orb_step c pd s b = orb_entries c (orb_exits c s b) b"
  using assms by (simp add: orb_step_def Let_def orb_new_day_def)

lemma orb_ts_step1:
  "orb_step orb_ts_cfg 1 (orb_at 0 0 0 0 (- 1) 1000000000 False) (mk_bar 1 570 100 101 99)
     = orb_at 0 0 0 0 101 99 False"
  by (simp add: orb_step_defs)

lemma orb_ts_step2:
  "orb_step orb_ts_cfg 1 (orb_at 0 0 0 0 101 99 False) (mk_bar 1 585 102 102 (201 / 2))
     = orb_at 1 102 100 106 101 99 True"
  by (simp add: orb_step_defs)

lemma orb_ts_step3:
  "orb_step orb_ts_cfg 1 (orb_at 1 102 100 106 101 99 True) (mk_bar 1 590 (213 / 2) 107 105)
     = orb_at 1 102 104 106 101 99 True"
  by (simp add: orb_step_defs)

lemma orb_ts_step4:
  "orb_step orb_ts_cfg 1 (orb_at 1 102 104 106 101 99 True) (mk_bar 1 595 104 106 (207 / 2))
     = orb_at 0 102 104 106 101 99 True"
  by (simp add: orb_step_defs)

lemma orb_ts_trace:
  "orb_trace orb_ts_cfg orb_ts_bars =
     [orb_at 0 0 0 0 (- 1) 1000000000 False,
      orb_at 0 0 0 0 101 99 False,
      orb_at 1 102 100 106 101 99 True,
      orb_at 1 102 104 106 101 99 True,
      orb_at 0 102 104 106 101 99 True]"
  by (simp add: orb_trace_def orb_ts_bars_def orb_init_at day_id_mk_bar
      orb_ts_step1 orb_ts_step2 orb_ts_step3 orb_ts_step4 Let_def)

lemma orb_short_step2:
  "orb_step orb_ts_cfg 1 (orb_at 0 0 0 0 101 99 False) (mk_bar 1 585 98 (199 / 2) 98)
     = orb_at (- 1) 98 100 94 101 99 True"
  by (simp add: orb_step_defs)

lemma orb_short_step3:
  "orb_step orb_ts_cfg 1 (orb_at (- 1) 98 100 94 101 99 True) (mk_bar 1 590 94 (191 / 2) 93)
     = orb_at (- 1) 98 96 94 101 99 True"
  by (simp add: orb_step_defs)

lemma orb_short_step4:
  "orb_step orb_ts_cfg 1 (orb_at (- 1) 98 96 94 101 99 True) (mk_bar 1 595 95 97 (189 / 2))
     = orb_at 0 98 96 94 101 99 True"
  by (simp add: orb_step_defs)

lemma orb_short_trace:
  "orb_trace orb_ts_cfg orb_short_bars =
     [orb_at 0 0 0 0 (- 1) 1000000000 False,
      orb_at 0 0 0 0 101 99 False,
      orb_at (- 1) 98 100 94 101 99 True,
      orb_at (- 1) 98 96 94 101 99 True,
      orb_at 0 98 96 94 101 99 True]"
  by (simp add: orb_trace_def orb_short_bars_def orb_init_at day_id_mk_bar
      orb_ts_step1 orb_short_step2 orb_short_step3 orb_short_step4 Let_def)

lemma orb_short_signals: "numba_orb_logic orb_ts_cfg orb_short_bars = [0, 0, - 1, - 1, 0]"
  by (simp add: numba_orb_logic_def orb_short_bars_def orb_init_at day_id_mk_bar
      orb_ts_step1 orb_short_step2 orb_short_step3 orb_short_step4 in_pos_orb_at Let_def)

lemma orb_at_fields:
  "in_pos (orb_at p e sl tp oh ol tr) = p"
  "sl_price (orb_at p e sl tp oh ol tr) = sl"
  "tp_price (orb_at p e sl tp oh ol tr) = tp"
  "traded_today (orb_at p e sl tp oh ol tr) = tr"
  by (simp_all add: orb_at_def)

lemma mk_bar_fields:
  "close (mk_bar d t c h l) = c" "high (mk_bar d t c h l) = h" "low (mk_bar d t c h l) = l"
  "time (mk_bar d t c h l) = t" "atr (mk_bar d t c h l) = 1"
  by (simp_all add: mk_bar_def)

lemma orb_cfg_fields:
  "use_ts orb_ts_cfg" "\<not> use_ts orb_demo_cfg"
  "end_min orb_ts_cfg = 585" "exit_min orb_ts_cfg = 945" "ts_mult orb_ts_cfg = 3"
  "end_min orb_demo_cfg = 585" "exit_min orb_demo_cfg = 945"
  by (simp_all add: orb_ts_cfg_def orb_demo_cfg_def)

lemma orb_ts_bars_nth:
  "length orb_ts_bars = 5"
  "orb_ts_bars ! 2 = mk_bar 1 585 102 102 (201 / 2)"
  "orb_ts_bars ! 3 = mk_bar 1 590 (213 / 2) 107 105"
  by (simp_all add: orb_ts_bars_def)

lemma orb_short_bars_nth:
  "length orb_short_bars = 5"
  "orb_short_bars ! 2 = mk_bar 1 585 98 (199 / 2) 98"
  "orb_short_bars ! 3 = mk_bar 1 590 94 (191 / 2) 93"
  "orb_short_bars ! 4 = mk_bar 1 595 95 97 (189 / 2)"
  by (simp_all add: orb_short_bars_def)

lemma length_series_of: "length (series_of sigs) = length sigs"
  by (simp add: series_of_def)

lemma rows_frame_of: "length (rows (frame_of bars)) = length bars"
  by (simp add: frame_of_def)

lemma strat_returns_nth:
  "length signals = length (rows df) \<Longrightarrow> i < length (rows df) \<Longrightarrow>
   strat_returns df signals ! i = pos signals ! i * pct_change (prices df) ! i"
  by (simp add: strat_returns_def pos_def length_shift1 pct_change_def prices_def)

lemma orb_gross_return:
  assumes "0 < i" and "i < length bars"
  shows "strat_returns (frame_of bars) (series_of (numba_orb_logic c bars)) ! i =
           real_of_int (in_pos (orb_trace c bars ! (i - 1)))
             * (close (bars ! i) / close (bars ! (i - 1)) - 1)"
proof -
  let ?sg = "series_of (numba_orb_logic c bars)"
  have len: "length ?sg = length (rows (frame_of bars))"
    by (simp add: length_series_of length_numba_orb_logic rows_frame_of)
  from assms have il: "i < length (rows (frame_of bars))" by (simp add: rows_frame_of)
  from assms have p: "pos ?sg ! i = real_of_int (in_pos (orb_trace c bars ! (i - 1)))"
    by (simp add: pos_nth length_series_of length_numba_orb_logic series_of_def orb_signal_trace)
  from assms have r: "pct_change (prices (frame_of bars)) ! i = close (bars ! i) / close (bars ! (i - 1)) - 1"
    by (simp add: pct_change_def prices_def frame_of_def)
  show ?thesis
    by (simp only: strat_returns_nth[OF len il] p r)
qed

lemma upt5: "[0..<5] = [0, 1, 2, 3, 4]" by (simp add: upt_rec)

lemma orb_demo_bars_nth:
  "length orb_demo_bars = 5"
  "orb_demo_bars ! 2 = mk_bar 1 585 102 102 (201 / 2)"
  "orb_demo_bars ! 3 = mk_bar 1 590 108 110 99"
  by (simp_all add: orb_demo_bars_def)

lemma orb_demo_net_returns:
  "net_returns demo_engine (frame_of orb_demo_bars) (series_of [0, 0, 1, 0, 0]) =
     [0, 0, 0, 212413 / 3672000, - (1 / 1080)]"
  by (simp add: engine_defs frame_of_def series_of_def orb_demo_bars_def mk_bar_def upt5)

lemma demo_engine_capital: "initial_capital demo_engine = 100000"
  by (simp add: demo_engine_def)

lemma orb_demo_equity:
  "equity_curve demo_engine (frame_of orb_demo_bars) (series_of [0, 0, 1, 0, 0]) =
     [100000, 100000, 100000, 97110325 / 918, 20956408135 / 198288]"
  by (simp add: equity_curve_def cumprod_def orb_demo_net_returns demo_engine_capital)

subsection \<open>The claims about the ORB kernel\<close>

text \<open>
  C5, as the code has it. At every trading-window bar that a long position enters and
  whose low is at or below the stop (whether or not the high also reaches the target), the
  kernel closes the position: the signal of the bar is 0. The kernel records neither a
  fill price nor an outcome; the engine gives the position the whole close-to-close
  return of that bar, so the trade is closed at the bar's close. Short positions are
  the mirror image.
\<close>

theorem orb_stop_closes_at_close:
  assumes i0: "0 < i" and il: "i < length bars" and tb: "trading_bar c bars i"
    and cl: "close (bars ! (i - 1)) \<noteq> 0"
  shows "(in_pos (orb_trace c bars ! (i - 1)) = 1 \<and>
          low (bars ! i) \<le> sl_price (orb_trace c bars ! (i - 1)) \<longrightarrow>
            numba_orb_logic c bars ! i = 0 \<and>
            strat_returns (frame_of bars) (series_of (numba_orb_logic c bars)) ! i =
              close (bars ! i) / close (bars ! (i - 1)) - 1) \<and>
         (in_pos (orb_trace c bars ! (i - 1)) = - 1 \<and>
          high (bars ! i) \<ge> sl_price (orb_trace c bars ! (i - 1)) \<longrightarrow>
            numba_orb_logic c bars ! i = 0 \<and>
            strat_returns (frame_of bars) (series_of (numba_orb_logic c bars)) ! i =
              - (close (bars ! i) / close (bars ! (i - 1)) - 1))"
proof -
  let ?s = "orb_trace c bars ! (i - 1)" and ?b = "bars ! i" and ?pd = "day_id (bars ! (i - 1))"
  have step: "orb_trace c bars ! i = orb_entries c (orb_exits c ?s ?b) ?b"
    using orb_trace_step[OF i0 il, of c] tb
    by (simp add: trading_bar_def orb_step_trading)
  from il have "orb_inv ?s" by (intro orb_trace_inv) simp
  then have tr: "in_pos ?s \<noteq> 0 \<Longrightarrow> traded_today ?s" by (simp add: orb_inv_def)
  have sg: "numba_orb_logic c bars ! i = in_pos (orb_entries c (orb_exits c ?s ?b) ?b)"
    using il by (simp add: orb_signal_trace step)
  have long: "numba_orb_logic c bars ! i = 0"
    if "in_pos ?s = 1" "low ?b \<le> sl_price ?s"
    unfolding sg using that tr orb_trading_long(2)[of ?s c ?b] by (auto simp: max_def)
  have short: "numba_orb_logic c bars ! i = 0"
    if "in_pos ?s = - 1" "high ?b \<ge> sl_price ?s"
    unfolding sg using that tr orb_trading_short(2)[of ?s c ?b] by (auto simp: min_def)
  from long short show ?thesis
    by (simp add: orb_gross_return[OF i0 il])
qed

text \<open>
  The theorem at two concrete series: the long position of the counterexample below,
  and a short position whose bar reaches the trailing stop at 96.
\<close>

theorem orb_stop_closes_at_close_witness:
  "(0::nat) < 3 \<and> 3 < length orb_demo_bars \<and> trading_bar orb_demo_cfg orb_demo_bars 3 \<and>
   close (orb_demo_bars ! (3 - 1)) \<noteq> 0 \<and>
   in_pos (orb_trace orb_demo_cfg orb_demo_bars ! (3 - 1)) = 1 \<and>
   low (orb_demo_bars ! 3) \<le> sl_price (orb_trace orb_demo_cfg orb_demo_bars ! (3 - 1)) \<and>
   numba_orb_logic orb_demo_cfg orb_demo_bars ! 3 = 0 \<and>
   strat_returns (frame_of orb_demo_bars) (series_of (numba_orb_logic orb_demo_cfg orb_demo_bars)) ! 3
     = 108 / 102 - 1 \<and>
   (0::nat) < 4 \<and> 4 < length orb_short_bars \<and> trading_bar orb_ts_cfg orb_short_bars 4 \<and>
   close (orb_short_bars ! (4 - 1)) \<noteq> 0 \<and>
   in_pos (orb_trace orb_ts_cfg orb_short_bars ! (4 - 1)) = - 1 \<and>
   high (orb_short_bars ! 4) \<ge> sl_price (orb_trace orb_ts_cfg orb_short_bars ! (4 - 1)) \<and>
   numba_orb_logic orb_ts_cfg orb_short_bars ! 4 = 0 \<and>
   strat_returns (frame_of orb_short_bars) (series_of (numba_orb_logic orb_ts_cfg orb_short_bars)) ! 4
     = - (95 / 94 - 1)"
  using orb_stop_closes_at_close [of 3 orb_demo_bars orb_demo_cfg]
    orb_stop_closes_at_close [of 4 orb_short_bars orb_ts_cfg]
  by (simp add: orb_demo_trace orb_short_trace orb_at_fields orb_demo_bars_nth orb_short_bars_nth
      mk_bar_fields trading_bar_def day_id_mk_bar orb_cfg_fields)

text \<open>
  C5 as stated fails. A long position entered at 102 has its stop at 100 and its target
  at 106. The next bar has low 99 and high 110, so both fall within the bar, and it
  closes at 108. The kernel closes the position, and the engine books the bar's return
  from 102 to 108 less costs: the trade is a gain, not an exit at the stop price of 100.
\<close>

theorem orb_stop_first_counterexample:
  "in_pos (orb_trace orb_demo_cfg orb_demo_bars ! 2) = 1 \<and>
   sl_price (orb_trace orb_demo_cfg orb_demo_bars ! 2) = 100 \<and>
   tp_price (orb_trace orb_demo_cfg orb_demo_bars ! 2) = 106 \<and>
   low (orb_demo_bars ! 3) \<le> sl_price (orb_trace orb_demo_cfg orb_demo_bars ! 2) \<and>
   high (orb_demo_bars ! 3) \<ge> tp_price (orb_trace orb_demo_cfg orb_demo_bars ! 2) \<and>
   numba_orb_logic orb_demo_cfg orb_demo_bars = [0, 0, 1, 0, 0] \<and>
   net_returns demo_engine (frame_of orb_demo_bars)
       (series_of (numba_orb_logic orb_demo_cfg orb_demo_bars)) ! 3 = 212413 / 3672000 \<and>
   net_returns demo_engine (frame_of orb_demo_bars)
       (series_of (numba_orb_logic orb_demo_cfg orb_demo_bars)) ! 3
     \<noteq> sl_price (orb_trace orb_demo_cfg orb_demo_bars ! 2) / close (orb_demo_bars ! 2) - 1 \<and>
   initial_capital demo_engine <
     last (equity_curve demo_engine (frame_of orb_demo_bars)
       (series_of (numba_orb_logic orb_demo_cfg orb_demo_bars)))"
  by (simp add: orb_demo_signals orb_demo_trace orb_at_fields orb_demo_bars_nth mk_bar_fields
      orb_demo_net_returns orb_demo_equity demo_engine_capital)

text \<open>
  C7. For every bar series, if bar \<open>i\<close> is an entry (the signal goes from flat to not
  flat) and the bars after \<open>i\<close> up to \<open>j\<close> all have the calendar-day ordinal of their
  predecessor, then bar \<open>j\<close> is not an entry: a run of bars of one day holds at most
  one entry.
\<close>

theorem orb_one_entry_per_day:
  assumes ij: "i < j" and j: "j < length bars"
    and same_day: "\<forall>k. i < k \<and> k \<le> j \<longrightarrow> day_id (bars ! k) = day_id (bars ! (k - 1))"
    and ei: "entry_at (numba_orb_logic c bars) i"
  shows "\<not> entry_at (numba_orb_logic c bars) j"
proof -
  let ?tr = "orb_trace c bars"
  from ei have i0: "0 < i" and si: "numba_orb_logic c bars ! (i - 1) = 0"
    and sj: "numba_orb_logic c bars ! i \<noteq> 0"
    by (simp_all add: entry_at_def)
  from ij j have il: "i < length bars" by simp
  from i0 il have flat: "in_pos (?tr ! (i - 1)) = 0"
    using si by (simp add: orb_signal_trace)
  from il sj have held: "in_pos (?tr ! i) \<noteq> 0" by (simp add: orb_signal_trace)
  have ti: "traded_today (?tr ! i)"
    using orb_step_entry_traded[of "?tr ! (i - 1)" c "day_id (bars ! (i - 1))" "bars ! i"]
      flat held orb_trace_step[OF i0 il, of c] by simp
  have tk: "i \<le> k \<Longrightarrow> k < j \<Longrightarrow> traded_today (?tr ! k)" for k
  proof (induction k)
    case 0
    with ti show ?case by simp
  next
    case (Suc k)
    show ?case
    proof (cases "i = Suc k")
      case True
      with ti show ?thesis by simp
    next
      case False
      with Suc.prems have ik: "i \<le> k" "k < j" by simp_all
      then have t: "traded_today (?tr ! k)" by (rule Suc.IH)
      from ik Suc.prems same_day have d: "day_id (bars ! Suc k) = day_id (bars ! k)"
        by (metis diff_Suc_1 le_imp_less_Suc less_imp_le_nat)
      from Suc.prems j have "Suc k < length bars" by simp
      then have "?tr ! Suc k = orb_step c (day_id (bars ! k)) (?tr ! k) (bars ! Suc k)"
        using orb_trace_step[of "Suc k" bars c] by simp
      with t d show ?thesis by (simp add: orb_step_same_day_traded)
    qed
  qed
  show ?thesis
  proof
    assume ej: "entry_at (numba_orb_logic c bars) j"
    from ij have j0: "0 < j" by simp
    from ej j have fj: "in_pos (?tr ! (j - 1)) = 0" and hj: "in_pos (?tr ! j) \<noteq> 0"
      by (simp_all add: entry_at_def orb_signal_trace)
    from ij have "i \<le> j - 1" "j - 1 < j" by simp_all
    then have t: "traded_today (?tr ! (j - 1))" by (rule tk)
    have "in_pos (?tr ! j) = 0"
      using orb_step_no_entry[of "?tr ! (j - 1)" "bars ! j" "day_id (bars ! (j - 1))" c]
        fj t orb_trace_step[OF j0 j, of c] by simp
    with hj show False by simp
  qed
qed

text \<open>
  The theorem at a concrete series: bar 2 is the day's entry, bar 4 is not one.
\<close>

theorem orb_one_entry_per_day_witness:
  "(2::nat) < 4 \<and> 4 < length orb_demo_bars \<and>
   day_id (orb_demo_bars ! 3) = day_id (orb_demo_bars ! 2) \<and>
   day_id (orb_demo_bars ! 4) = day_id (orb_demo_bars ! 3) \<and>
   entry_at (numba_orb_logic orb_demo_cfg orb_demo_bars) 2 \<and>
   \<not> entry_at (numba_orb_logic orb_demo_cfg orb_demo_bars) 4"
proof -
  have d: "\<forall>k. 2 < k \<and> k \<le> 4 \<longrightarrow> day_id (orb_demo_bars ! k) = day_id (orb_demo_bars ! (k - 1))"
  proof (intro allI impI)
    fix k :: nat
    assume "2 < k \<and> k \<le> 4"
    then have "k = 3 \<or> k = 4" by auto
    then show "day_id (orb_demo_bars ! k) = day_id (orb_demo_bars ! (k - 1))"
      by (auto simp: orb_demo_bars_def day_id_mk_bar)
  qed
  have e: "entry_at (numba_orb_logic orb_demo_cfg orb_demo_bars) 2"
    by (simp add: orb_demo_signals entry_at_def)
  have l: "4 < length orb_demo_bars" by (simp add: orb_demo_bars_def)
  from orb_one_entry_per_day [of 2 4 orb_demo_bars orb_demo_cfg] d e l
  show ?thesis by (simp add: orb_demo_bars_def day_id_mk_bar)
qed

text \<open>
  C8. With the trailing stop enabled, at every bar \<open>i \<ge> 1\<close> that a long position
  enters: the stop price after the bar is not below the stop price before it; and when
  the bar is in the trading window of the same day, the stop is moved to
  \<open>max(previous stop, high(i) - ts_mult * ATR(i))\<close> and the position stays long exactly
  when the bar's low is above that stop, whatever the fixed target is. A short position
  is the mirror image: the stop does not rise, it is moved to
  \<open>min(previous stop, low(i) + ts_mult * ATR(i))\<close>, and the position stays short
  exactly when the bar's high is below it.
\<close>

theorem orb_trailing_stop:
  assumes ts: "use_ts c" and i0: "0 < i" and il: "i < length bars"
  shows "(in_pos (orb_trace c bars ! (i - 1)) = 1 \<longrightarrow>
            sl_price (orb_trace c bars ! (i - 1)) \<le> sl_price (orb_trace c bars ! i) \<and>
            (trading_bar c bars i \<longrightarrow>
               sl_price (orb_trace c bars ! i) =
                 max (sl_price (orb_trace c bars ! (i - 1)))
                     (high (bars ! i) - atr (bars ! i) * ts_mult c) \<and>
               (in_pos (orb_trace c bars ! i) = 1 \<longleftrightarrow>
                  sl_price (orb_trace c bars ! i) < low (bars ! i)))) \<and>
         (in_pos (orb_trace c bars ! (i - 1)) = - 1 \<longrightarrow>
            sl_price (orb_trace c bars ! i) \<le> sl_price (orb_trace c bars ! (i - 1)) \<and>
            (trading_bar c bars i \<longrightarrow>
               sl_price (orb_trace c bars ! i) =
                 min (sl_price (orb_trace c bars ! (i - 1)))
                     (low (bars ! i) + atr (bars ! i) * ts_mult c) \<and>
               (in_pos (orb_trace c bars ! i) = - 1 \<longleftrightarrow>
                  high (bars ! i) < sl_price (orb_trace c bars ! i))))"
proof -
  let ?s = "orb_trace c bars ! (i - 1)" and ?b = "bars ! i" and ?pd = "day_id (bars ! (i - 1))"
  have step: "orb_trace c bars ! i = orb_step c ?pd ?s ?b"
    using i0 il by (rule orb_trace_step)
  from il have "orb_inv ?s" by (intro orb_trace_inv) simp
  then have tr: "in_pos ?s \<noteq> 0 \<Longrightarrow> traded_today ?s" by (simp add: orb_inv_def)
  have long: "sl_price ?s \<le> sl_price (orb_step c ?pd ?s ?b) \<and>
            (trading_bar c bars i \<longrightarrow>
               sl_price (orb_step c ?pd ?s ?b) = max (sl_price ?s) (high ?b - atr ?b * ts_mult c) \<and>
               (in_pos (orb_step c ?pd ?s ?b) = 1 \<longleftrightarrow> sl_price (orb_step c ?pd ?s ?b) < low ?b))"
    if p: "in_pos ?s = 1"
  proof (cases "trading_bar c bars i")
    case True
    then have st: "orb_step c ?pd ?s ?b = orb_entries c (orb_exits c ?s ?b) ?b"
      by (intro orb_step_trading) (simp_all add: trading_bar_def)
    from p tr have t: "traded_today ?s" by simp
    show ?thesis
      unfolding st using True ts orb_trading_long[OF p t, of c ?b] by auto
  next
    case False
    then have "sl_price (orb_step c ?pd ?s ?b) = sl_price ?s"
      using p by (intro orb_step_sl_other) (simp_all add: trading_bar_def)
    with False show ?thesis by simp
  qed
  have short: "sl_price (orb_step c ?pd ?s ?b) \<le> sl_price ?s \<and>
            (trading_bar c bars i \<longrightarrow>
               sl_price (orb_step c ?pd ?s ?b) = min (sl_price ?s) (low ?b + atr ?b * ts_mult c) \<and>
               (in_pos (orb_step c ?pd ?s ?b) = - 1 \<longleftrightarrow> high ?b < sl_price (orb_step c ?pd ?s ?b)))"
    if p: "in_pos ?s = - 1"
  proof (cases "trading_bar c bars i")
    case True
    then have st: "orb_step c ?pd ?s ?b = orb_entries c (orb_exits c ?s ?b) ?b"
      by (intro orb_step_trading) (simp_all add: trading_bar_def)
    from p tr have t: "traded_today ?s" by simp
    show ?thesis
      unfolding st using True ts orb_trading_short[OF p t, of c ?b] by auto
  next
    case False
    then have "sl_price (orb_step c ?pd ?s ?b) = sl_price ?s"
      using p by (intro orb_step_sl_other) (simp_all add: trading_bar_def)
    with False show ?thesis by simp
  qed
  from long short show ?thesis unfolding step by blast
qed

text \<open>
  The theorem at two concrete series: a long position whose bar reaches the fixed target
  (high 107, target 106) stays open with the stop moved from 100 to 104; a short position
  whose bar reaches the target (low 93, target 94) stays open with the stop at 96.
\<close>

theorem orb_trailing_stop_witness:
  "use_ts orb_ts_cfg \<and> (0::nat) < 3 \<and> 3 < length orb_ts_bars \<and> 3 < length orb_short_bars \<and>
   in_pos (orb_trace orb_ts_cfg orb_ts_bars ! (3 - 1)) = 1 \<and>
   trading_bar orb_ts_cfg orb_ts_bars 3 \<and>
   tp_price (orb_trace orb_ts_cfg orb_ts_bars ! (3 - 1)) \<le> high (orb_ts_bars ! 3) \<and>
   sl_price (orb_trace orb_ts_cfg orb_ts_bars ! 3) = 104 \<and>
   in_pos (orb_trace orb_ts_cfg orb_ts_bars ! 3) = 1 \<and>
   in_pos (orb_trace orb_ts_cfg orb_short_bars ! (3 - 1)) = - 1 \<and>
   trading_bar orb_ts_cfg orb_short_bars 3 \<and>
   low (orb_short_bars ! 3) \<le> tp_price (orb_trace orb_ts_cfg orb_short_bars ! (3 - 1)) \<and>
   sl_price (orb_trace orb_ts_cfg orb_short_bars ! 3) = 96 \<and>
   in_pos (orb_trace orb_ts_cfg orb_short_bars ! 3) = - 1"
  using orb_trailing_stop [of orb_ts_cfg 3 orb_ts_bars]
    orb_trailing_stop [of orb_ts_cfg 3 orb_short_bars]
  by (simp add: orb_ts_trace orb_short_trace orb_at_fields trading_bar_def
      orb_ts_bars_nth orb_short_bars_nth mk_bar_fields day_id_mk_bar orb_cfg_fields)

section \<open>Properties of the overnight kernel\<close>

lemma length_on_loop: "length (on_loop c pd s bs) = length bs"
  by (induction bs arbitrary: pd s) (simp_all add: Let_def)

lemma on_loop_nth:
  "k < length bs \<Longrightarrow>
   on_loop c pd s bs ! k =
     on_step c (if k = 0 then pd else day_id (bs ! (k - 1)))
       (if k = 0 then s else fst (on_loop c pd s bs ! (k - 1))) (bs ! k)"
proof (induction bs arbitrary: pd s k)
  case Nil
  then show ?case by simp
next
  case (Cons b bs)
  show ?case
  proof (cases k)
    case 0
    then show ?thesis by (simp add: Let_def)
  next
    case (Suc m)
    with Cons.prems have m: "m < length bs" by simp
    from Cons.IH[OF m, of "day_id b" "fst (on_step c pd s b)"] Suc show ?thesis
      by (cases m) (simp_all add: Let_def)
  qed
qed

lemma length_overnight_trace: "length (overnight_trace c bars) = length bars"
  by (cases bars) (simp_all add: overnight_trace_def length_on_loop)

lemma length_numba_overnight_logic: "length (numba_overnight_logic c bars) = length bars"
  by (cases bars) (simp_all add: numba_overnight_logic_def length_on_loop)

lemma overnight_step:
  assumes "0 < i" and "i < length bars"
  shows "overnight_trace c bars ! i =
           fst (on_step c (day_id (bars ! (i - 1))) (overnight_trace c bars ! (i - 1)) (bars ! i))"
    and "numba_overnight_logic c bars ! i =
           snd (on_step c (day_id (bars ! (i - 1))) (overnight_trace c bars ! (i - 1)) (bars ! i))"
proof -
  from assms obtain b0 bs where bars: "bars = b0 # bs" by (cases bars) auto
  from assms obtain k where k: "i = Suc k" by (cases i) auto
  with assms bars have kl: "k < length bs" by simp
  have n: "on_loop c (day_id b0) on_init bs ! k =
     on_step c (day_id (bars ! (i - 1))) (overnight_trace c bars ! (i - 1)) (bars ! i)"
    using on_loop_nth[OF kl, of c "day_id b0" on_init] k bars kl
    by (cases k) (simp_all add: overnight_trace_def length_on_loop)
  show "overnight_trace c bars ! i =
           fst (on_step c (day_id (bars ! (i - 1))) (overnight_trace c bars ! (i - 1)) (bars ! i))"
    using n k bars kl by (simp add: overnight_trace_def length_on_loop)
  show "numba_overnight_logic c bars ! i =
           snd (on_step c (day_id (bars ! (i - 1))) (overnight_trace c bars ! (i - 1)) (bars ! i))"
    using n k bars kl by (simp add: numba_overnight_logic_def length_on_loop)
qed

subsection \<open>The first bar of a new calendar day\<close>

lemma on_new_day_flat:
  "day_id b \<noteq> pd \<Longrightarrow> in_pos (on_new_day c pd s b) = 0"
  by (simp add: on_new_day_def on_reset_def Let_def)

lemma on_new_day_closes:
  "day_id b \<noteq> pd \<Longrightarrow> on_new_day c pd s b = on_new_day c pd (s\<lparr>in_pos := 0\<rparr>) b"
  by (simp add: on_new_day_def on_reset_def Let_def)

lemma on_new_day_morning:
  "day_id b \<noteq> pd \<Longrightarrow> time b < start_min c \<Longrightarrow> on_new_day c pd s b = s\<lparr>in_pos := 0\<rparr>"
  by (simp add: on_new_day_def Let_def)

lemma on_new_day_evening:
  "day_id b \<noteq> pd \<Longrightarrow> time b \<ge> start_min c \<Longrightarrow>
   range_high (on_new_day c pd s b) = - 1 \<and> range_low (on_new_day c pd s b) = 1000000000 \<and>
   in_session (on_new_day c pd s b)"
  by (simp add: on_new_day_def on_reset_def Let_def)

lemma on_session_start_fields [simp]:
  "in_pos (on_session_start c s b) = in_pos s"
  by (simp add: on_session_start_def on_reset_def)

lemma on_exits_flat: "in_pos s = 0 \<Longrightarrow> on_exits s b = s"
  by (simp add: on_exits_def)

lemma on_entries_blocked:
  "traded_session s \<or> in_pos s \<noteq> 0 \<or> \<not> range_high s > range_low s \<Longrightarrow> on_entries c s b = s"
  by (auto simp: on_entries_def)

lemma on_range_in_pos [simp]: "in_pos (on_range s b) = in_pos s"
  by (simp add: on_range_def Let_def)

text \<open>From a flat state in which entries are blocked, every branch writes signal 0.\<close>

lemma on_trade_flat:
  assumes "in_pos s = 0" and "traded_session s \<or> \<not> range_high s > range_low s"
  shows "snd (on_trade c s b) = 0"
proof -
  from assms(1) have "on_exits s b = s" by (rule on_exits_flat)
  moreover from assms(2) have "on_entries c s b = s" by (intro on_entries_blocked) blast
  ultimately show ?thesis using assms(1) by (simp add: on_trade_def Let_def)
qed

lemma on_bar_flat:
  assumes z: "in_pos s = 0" and blk: "traded_session s \<or> \<not> range_high s > range_low s"
  shows "snd (on_bar c s b) = 0"
proof -
  have a: "snd (on_trade c s b) = 0" using z blk by (rule on_trade_flat)
  have b: "snd (on_trade c (s\<lparr>range_formed := True\<rparr>) b) = 0"
    using z blk by (intro on_trade_flat) simp_all
  from z a b show ?thesis by (simp add: on_bar_def Let_def)
qed

lemma on_step_new_day_signal:
  assumes d: "day_id b \<noteq> pd" and h: "traded_session s \<or> time b \<ge> start_min c"
  shows "snd (on_step c pd s b) = 0"
proof -
  let ?s1 = "on_new_day c pd s b"
  let ?s2 = "on_session_start c ?s1 b"
  from d have z: "in_pos ?s2 = 0" by (simp add: on_new_day_flat)
  have blk: "traded_session ?s2 \<or> \<not> range_high ?s2 > range_low ?s2"
  proof (cases "time b \<ge> start_min c")
    case True
    with d have "range_high ?s1 = - 1 \<and> range_low ?s1 = 1000000000"
      by (simp add: on_new_day_evening)
    then have "\<not> range_high ?s2 > range_low ?s2"
      by (simp add: on_session_start_def on_reset_def)
    then show ?thesis by simp
  next
    case False
    with h have t: "traded_session s" by simp
    from False d have "?s1 = s\<lparr>in_pos := 0\<rparr>" by (simp add: on_new_day_morning)
    with False t have "traded_session ?s2" by (simp add: on_session_start_def)
    then show ?thesis by simp
  qed
  show ?thesis
    unfolding on_step_def using z blk by (rule on_bar_flat)
qed

lemma on_step_new_day_as_flat:
  "day_id b \<noteq> pd \<Longrightarrow> on_step c pd s b = on_step c pd (s\<lparr>in_pos := 0\<rparr>) b"
  unfolding on_step_def using on_new_day_closes[of b pd c s] by simp

text \<open>A morning bar of a new day leaves a formed range and the trade flag as they were.\<close>

lemma on_entries_session_fields:
  "range_high (on_entries c s b) = range_high s"
  "range_low (on_entries c s b) = range_low s"
  "range_formed (on_entries c s b) = range_formed s"
  "traded_session s \<Longrightarrow> traded_session (on_entries c s b)"
  by (simp_all add: on_entries_def Let_def)

lemma on_exits_session_fields [simp]:
  "range_high (on_exits s b) = range_high s"
  "range_low (on_exits s b) = range_low s"
  "range_formed (on_exits s b) = range_formed s"
  "traded_session (on_exits s b) = traded_session s"
  by (simp_all add: on_exits_def)

lemma on_trade_session_fields:
  "range_high (fst (on_trade c s b)) = range_high s"
  "range_low (fst (on_trade c s b)) = range_low s"
  "range_formed (fst (on_trade c s b)) = range_formed s"
  "traded_session s \<Longrightarrow> traded_session (fst (on_trade c s b))"
  by (simp_all add: on_trade_def Let_def on_entries_session_fields)

lemma on_bar_session_fields:
  assumes "range_formed s"
  shows "range_high (fst (on_bar c s b)) = range_high s"
    and "range_low (fst (on_bar c s b)) = range_low s"
    and "range_formed (fst (on_bar c s b))"
    and "traded_session s \<Longrightarrow> traded_session (fst (on_bar c s b))"
  using assms by (simp_all add: on_bar_def Let_def on_trade_session_fields)

lemma on_step_morning_session:
  assumes d: "day_id b \<noteq> pd" and m: "time b < start_min c" and rf: "range_formed s"
  shows "range_high (fst (on_step c pd s b)) = range_high s"
    and "range_low (fst (on_step c pd s b)) = range_low s"
    and "range_formed (fst (on_step c pd s b))"
    and "traded_session s \<Longrightarrow> traded_session (fst (on_step c pd s b))"
proof -
  from d m have s2: "on_session_start c (on_new_day c pd s b) b = s\<lparr>in_pos := 0\<rparr>"
    by (simp add: on_new_day_morning on_session_start_def)
  from rf have rf': "range_formed (s\<lparr>in_pos := 0\<rparr>)" by simp
  show "range_high (fst (on_step c pd s b)) = range_high s"
    unfolding on_step_def s2 using on_bar_session_fields(1)[OF rf', of c b] by simp
  show "range_low (fst (on_step c pd s b)) = range_low s"
    unfolding on_step_def s2 using on_bar_session_fields(2)[OF rf', of c b] by simp
  show "range_formed (fst (on_step c pd s b))"
    unfolding on_step_def s2 using rf' by (rule on_bar_session_fields(3))
  show "traded_session s \<Longrightarrow> traded_session (fst (on_step c pd s b))"
    unfolding on_step_def s2 using on_bar_session_fields(4)[OF rf', of c b] by simp
qed

lemmas on_step_defs =
  on_step_def on_bar_def on_trade_def on_new_day_def on_session_start_def on_reset_def
  bar_in_session_def in_range_window_def near_exit_def crosses_midnight_def on_range_def
  on_exits_def on_entries_def on_demo_cfg_def mk_kbar_def on_at_def Let_def

lemma on_init_at: "on_init = on_at 0 0 0 0 (- 1) 1000000000 False False False"
  by (simp add: on_init_def on_at_def)

lemma day_id_mk_kbar: "day_id (mk_kbar d t c h l) = d"
  by (simp add: mk_kbar_def)

lemma on_demo_step1:
  "on_step on_demo_cfg 1 (on_at 0 0 0 0 (- 1) 1000000000 False False False) (mk_kbar 1 1080 100 101 99)
     = (on_at 0 0 0 0 101 99 False True False, 0)"
  by (simp add: on_step_defs)

lemma on_demo_step2:
  "on_step on_demo_cfg 1 (on_at 0 0 0 0 101 99 False True False) (mk_kbar 1 1140 (201 / 2) 103 (501 / 5))
     = (on_at (- 1) (201 / 2) (205 / 2) (195 / 2) 101 99 True True True, - 1)"
  by (simp add: on_step_defs)

lemma on_demo_step3:
  "on_step on_demo_cfg 1 (on_at (- 1) (201 / 2) (205 / 2) (195 / 2) 101 99 True True True)
       (mk_kbar 1 1435 (201 / 2) 101 100)
     = (on_at (- 1) (201 / 2) (205 / 2) (195 / 2) 101 99 True True True, - 1)"
  by (simp add: on_step_defs)

lemma on_demo_step4:
  "on_step on_demo_cfg 1 (on_at (- 1) (201 / 2) (205 / 2) (195 / 2) 101 99 True True True)
       (mk_kbar 2 0 (201 / 2) 101 100)
     = (on_at 0 (201 / 2) (205 / 2) (195 / 2) 101 99 True True True, 0)"
  by (simp add: on_step_defs)

lemma on_demo_loop:
  "on_loop on_demo_cfg 1 on_init (tl on_demo_bars) =
     [(on_at 0 0 0 0 101 99 False True False, 0),
      (on_at (- 1) (201 / 2) (205 / 2) (195 / 2) 101 99 True True True, - 1),
      (on_at (- 1) (201 / 2) (205 / 2) (195 / 2) 101 99 True True True, - 1),
      (on_at 0 (201 / 2) (205 / 2) (195 / 2) 101 99 True True True, 0)]"
  by (simp add: on_demo_bars_def on_init_at day_id_mk_kbar
      on_demo_step1 on_demo_step2 on_demo_step3 on_demo_step4 Let_def)

lemma on_demo_signals: "numba_overnight_logic on_demo_cfg on_demo_bars = [0, 0, - 1, - 1, 0]"
  using on_demo_loop by (simp add: numba_overnight_logic_def on_demo_bars_def day_id_mk_kbar)

lemma on_demo_trace:
  "overnight_trace on_demo_cfg on_demo_bars =
     [on_init,
      on_at 0 0 0 0 101 99 False True False,
      on_at (- 1) (201 / 2) (205 / 2) (195 / 2) 101 99 True True True,
      on_at (- 1) (201 / 2) (205 / 2) (195 / 2) 101 99 True True True,
      on_at 0 (201 / 2) (205 / 2) (195 / 2) 101 99 True True True]"
  using on_demo_loop by (simp add: overnight_trace_def on_demo_bars_def day_id_mk_kbar)

lemma on_at_fields:
  "in_pos (on_at p e sl tp rh rl tr ins rf) = p"
  "sl_price (on_at p e sl tp rh rl tr ins rf) = sl"
  "tp_price (on_at p e sl tp rh rl tr ins rf) = tp"
  "traded_session (on_at p e sl tp rh rl tr ins rf) = tr"
  "range_formed (on_at p e sl tp rh rl tr ins rf) = rf"
  by (simp_all add: on_at_def)

lemma on_demo_bars_nth:
  "length on_demo_bars = 5"
  "on_demo_bars ! 3 = mk_kbar 1 1435 (201 / 2) 101 100"
  "on_demo_bars ! 4 = mk_kbar 2 0 (201 / 2) 101 100"
  by (simp_all add: on_demo_bars_def)

lemma mk_kbar_fields:
  "high (mk_kbar d t c h l) = h" "low (mk_kbar d t c h l) = l" "time (mk_kbar d t c h l) = t"
  by (simp_all add: mk_kbar_def)

lemma on_demo_cfg_fields:
  "start_min on_demo_cfg = 1080" "end_min on_demo_cfg = 480"
  by (simp_all add: on_demo_cfg_def)

text \<open>
  C4, as the code has it. On the first bar of a new calendar day the kernel closes any
  open position before anything else, with no stop, target or session-end test: the
  signal of the bar is the one a flat position would give, and it is 0 whenever the
  session's one trade has already been taken or the bar is at or after \<open>start_min\<close>.
  What survives midnight is the session: when that bar is before \<open>start_min\<close> and the
  range is formed, the range and the one-trade flag are carried over.
\<close>

theorem overnight_day_boundary:
  assumes i0: "0 < i" and il: "i < length bars"
    and d: "day_id (bars ! i) \<noteq> day_id (bars ! (i - 1))"
  shows "numba_overnight_logic c bars ! i =
           snd (on_step c (day_id (bars ! (i - 1)))
                  ((overnight_trace c bars ! (i - 1))\<lparr>in_pos := 0\<rparr>) (bars ! i)) \<and>
         (traded_session (overnight_trace c bars ! (i - 1)) \<or> time (bars ! i) \<ge> start_min c
            \<longrightarrow> numba_overnight_logic c bars ! i = 0) \<and>
         (time (bars ! i) < start_min c \<and> range_formed (overnight_trace c bars ! (i - 1))
            \<longrightarrow> range_high (overnight_trace c bars ! i) = range_high (overnight_trace c bars ! (i - 1)) \<and>
                range_low (overnight_trace c bars ! i) = range_low (overnight_trace c bars ! (i - 1)) \<and>
                range_formed (overnight_trace c bars ! i) \<and>
                (traded_session (overnight_trace c bars ! (i - 1))
                   \<longrightarrow> traded_session (overnight_trace c bars ! i)))"
proof -
  let ?s = "overnight_trace c bars ! (i - 1)" and ?b = "bars ! i" and ?pd = "day_id (bars ! (i - 1))"
  have sg: "numba_overnight_logic c bars ! i = snd (on_step c ?pd ?s ?b)"
    using i0 il by (rule overnight_step(2))
  have st: "overnight_trace c bars ! i = fst (on_step c ?pd ?s ?b)"
    using i0 il by (rule overnight_step(1))
  have a: "numba_overnight_logic c bars ! i = snd (on_step c ?pd (?s\<lparr>in_pos := 0\<rparr>) ?b)"
    unfolding sg using on_step_new_day_as_flat[OF d, of c ?s] by simp
  have b: "traded_session ?s \<or> time ?b \<ge> start_min c \<longrightarrow> numba_overnight_logic c bars ! i = 0"
    unfolding sg using on_step_new_day_signal[OF d, of ?s c] by blast
  have c: "time ?b < start_min c \<and> range_formed ?s
            \<longrightarrow> range_high (overnight_trace c bars ! i) = range_high ?s \<and>
                range_low (overnight_trace c bars ! i) = range_low ?s \<and>
                range_formed (overnight_trace c bars ! i) \<and>
                (traded_session ?s \<longrightarrow> traded_session (overnight_trace c bars ! i))"
    unfolding st using on_step_morning_session[OF d, of c ?s] by blast
  from a b c show ?thesis by blast
qed

text \<open>
  C4 as stated fails. The session runs from 18:00 to 08:00. A short position is entered
  at 19:00 and is open at 23:55, the last bar before midnight. The bar at 00:00 of the
  next day is in session, is not within five minutes of the session end, and reaches
  neither the stop (102.5) nor the target (97.5); its signal is 0 all the same.
\<close>

theorem overnight_midnight_counterexample:
  "numba_overnight_logic on_demo_cfg on_demo_bars = [0, 0, - 1, - 1, 0] \<and>
   day_id (on_demo_bars ! 3) = 1 \<and> time (on_demo_bars ! 3) = 1435 \<and>
   day_id (on_demo_bars ! 4) = 2 \<and> time (on_demo_bars ! 4) = 0 \<and>
   in_pos (overnight_trace on_demo_cfg on_demo_bars ! 3) = - 1 \<and>
   high (on_demo_bars ! 4) < sl_price (overnight_trace on_demo_cfg on_demo_bars ! 3) \<and>
   tp_price (overnight_trace on_demo_cfg on_demo_bars ! 3) < low (on_demo_bars ! 4) \<and>
   bar_in_session on_demo_cfg (time (on_demo_bars ! 4)) \<and>
   \<not> near_exit on_demo_cfg (time (on_demo_bars ! 4)) \<and>
   numba_overnight_logic on_demo_cfg on_demo_bars ! 3 \<noteq> 0 \<and>
   numba_overnight_logic on_demo_cfg on_demo_bars ! 4 = 0"
  by (simp add: on_demo_signals on_demo_trace on_at_fields on_demo_bars_nth mk_kbar_fields
      day_id_mk_kbar bar_in_session_def near_exit_def crosses_midnight_def on_demo_cfg_fields)

text \<open>
  The theorem at the series of the counterexample above: bar 4 is the first bar after
  midnight.
\<close>

theorem overnight_day_boundary_witness:
  "(0::nat) < 4 \<and> 4 < length on_demo_bars \<and>
   day_id (on_demo_bars ! 4) \<noteq> day_id (on_demo_bars ! (4 - 1)) \<and>
   traded_session (overnight_trace on_demo_cfg on_demo_bars ! (4 - 1)) \<and>
   time (on_demo_bars ! 4) < start_min on_demo_cfg \<and>
   range_formed (overnight_trace on_demo_cfg on_demo_bars ! (4 - 1)) \<and>
   numba_overnight_logic on_demo_cfg on_demo_bars ! 4 = 0 \<and>
   range_formed (overnight_trace on_demo_cfg on_demo_bars ! 4) \<and>
   traded_session (overnight_trace on_demo_cfg on_demo_bars ! 4)"
  using overnight_day_boundary [of 4 on_demo_bars on_demo_cfg]
  by (simp add: on_demo_trace on_at_fields on_demo_bars_nth mk_kbar_fields
      day_id_mk_kbar on_demo_cfg_fields)

section \<open>Properties of the complementarity scorer\<close>











subsection \<open>Windows that lie within the reference union\<close>




lemma reference_minutes:
  "nq_minutes get_all_active_windows = {570..<945} \<union> ({1085..<1440} \<union> {0..<565})"
  by (simp add: get_all_active_windows_def rth_start_def rth_end_def overnight_start_def
      overnight_end_def tm_def minute_of_def window_to_minutes_def)

text \<open>No single window, plain or across midnight, covers exactly the reference union.\<close>

lemma no_window_is_reference_union:
  "window_to_minutes s e \<noteq> nq_minutes get_all_active_windows"
proof
  assume eq: "window_to_minutes s e = nq_minutes get_all_active_windows"
  let ?W = "window_to_minutes s e"
  have in0: "0 \<in> ?W" and in600: "600 \<in> ?W" and in1100: "1100 \<in> ?W"
    and out566: "566 \<notin> ?W" and out1000: "1000 \<notin> ?W"
    unfolding eq reference_minutes by simp_all
  show False
  proof (cases "s > e")
    case True
    with in600 have "s \<le> 600 \<or> 600 < e" by (auto simp: window_to_minutes_def)
    then show False
    proof
      assume "s \<le> 600"
      with True have "1000 \<in> ?W" by (simp add: window_to_minutes_def)
      with out1000 show False by simp
    next
      assume "600 < e"
      with True have "566 \<in> ?W" by (simp add: window_to_minutes_def)
      with out566 show False by simp
    qed
  next
    case False
    with in0 in1100 have "s \<le> 0" "1100 < e" by (auto simp: window_to_minutes_def)
    with False have "566 \<in> ?W" by (simp add: window_to_minutes_def)
    with out566 show False by simp
  qed
qed















end
